theory Spec2Isabelle
  imports Complex_Main "HOL-Library.AList"
begin

section \<open>JSON values, variant maps and strings\<close>

text \<open>
  Qt's \<^verbatim>\<open>QJsonValue\<close> has the types Null, Bool, Double, String, Array, Object and
  Undefined. A JSON number is a double; the model keeps its value as a rational.
  An object is an association list read with \<open>map_of\<close> (the first binding of a key
  counts). The variant trees that \<^verbatim>\<open>toVariantMap\<close> and \<^verbatim>\<open>toVariantList\<close> build have
  the same shape, so the signals carry values of the same type. \<^verbatim>\<open>QString\<close> and
  \<^verbatim>\<open>QByteArray\<close> are both \<open>string\<close>: a character of a \<^verbatim>\<open>QString\<close> is its code point, of
  which the model has those up to U+00FF, and a character of a \<^verbatim>\<open>QByteArray\<close> is a byte.
\<close>

datatype jvalue =
    JUndefined
  | JNull
  | JBool bool
  | JDouble rat
  | JString string
  | JArray "jvalue list"
  | JObject "(string \<times> jvalue) list"

type_synonym QJsonObject = "(string \<times> jvalue) list"
type_synonym QVariantMap = "(string \<times> jvalue) list"

text \<open>\<^verbatim>\<open>QJsonObject::value(key)\<close>: the value, or Undefined when the key is absent.\<close>

definition obj_value :: "QJsonObject \<Rightarrow> string \<Rightarrow> jvalue" where
  "obj_value obj key = (case map_of obj key of None \<Rightarrow> JUndefined | Some v \<Rightarrow> v)"

definition obj_contains :: "QJsonObject \<Rightarrow> string \<Rightarrow> bool" where
  "obj_contains obj key = (map_of obj key \<noteq> None)"

text \<open>\<^verbatim>\<open>insert\<close> replaces the value of a key that is present; \<^verbatim>\<open>remove\<close> drops the key.\<close>

definition obj_insert :: "string \<Rightarrow> 'v \<Rightarrow> (string \<times> 'v) list \<Rightarrow> (string \<times> 'v) list" where
  "obj_insert key v obj = AList.update key v obj"

definition obj_remove :: "string \<Rightarrow> (string \<times> 'v) list \<Rightarrow> (string \<times> 'v) list" where
  "obj_remove key obj = AList.delete key obj"

text \<open>The conversions of \<^verbatim>\<open>QJsonValue\<close> return a default for a value of another type.\<close>

definition toObject :: "jvalue \<Rightarrow> QJsonObject" where
  "toObject v = (case v of JObject obj \<Rightarrow> obj | _ \<Rightarrow> [])"

definition toArray :: "jvalue \<Rightarrow> jvalue list" where
  "toArray v = (case v of JArray vs \<Rightarrow> vs | _ \<Rightarrow> [])"

definition toString :: "jvalue \<Rightarrow> string" where
  "toString v = (case v of JString s \<Rightarrow> s | _ \<Rightarrow> [])"

definition isArray :: "jvalue \<Rightarrow> bool" where
  "isArray v = (case v of JArray _ \<Rightarrow> True | _ \<Rightarrow> False)"

text \<open>
  \<^verbatim>\<open>QJsonValue::toInt()\<close>: the number when it is a double with an integral value that
  fits a 32-bit int, and the default 0 otherwise.
\<close>

definition toInt :: "jvalue \<Rightarrow> int" where
  "toInt v = (case v of
      JDouble q \<Rightarrow>
        (if of_int \<lfloor>q\<rfloor> = q \<and> - (2 ^ 31) \<le> \<lfloor>q\<rfloor> \<and> \<lfloor>q\<rfloor> < 2 ^ 31 then \<lfloor>q\<rfloor> else 0)
    | _ \<Rightarrow> 0)"

text \<open>\<^verbatim>\<open>QString::number(int)\<close>: the decimal numeral, with a leading minus sign.\<close>

definition digit_char :: "nat \<Rightarrow> char" where
  "digit_char d = ''0123456789'' ! d"

fun number_nat :: "nat \<Rightarrow> string" where
  "number_nat n =
     (if n < 10 then [digit_char n] else number_nat (n div 10) @ [digit_char (n mod 10)])"

declare number_nat.simps [simp del]

definition QString_number :: "int \<Rightarrow> string" where
  "QString_number i =
     (if i < 0 then CHR ''-'' # number_nat (nat (- i)) else number_nat (nat i))"

section \<open>Error reports\<close>

text \<open>
  \<^verbatim>\<open>parseErrorResponse(errorText, responseText)\<close>. The map it returns only ever holds
  \<^verbatim>\<open>QString\<close> values, so it is a map from keys to strings. The second argument is the
  document \<^verbatim>\<open>QJsonDocument::fromJson(responseText)\<close> decodes (Qt's parser is not part
  of the model): \<open>None\<close> when the bytes are not JSON.
\<close>

type_synonym ErrorReport = "(string \<times> string) list"

definition parseErrorElement :: "ErrorReport \<Rightarrow> jvalue \<Rightarrow> ErrorReport" where
  "parseErrorElement errorResponse errorsValue =
     (let errorElementObject = toObject errorsValue;
          errorResponse1 = obj_insert ''code''
            (QString_number (toInt (obj_value errorElementObject ''code''))) errorResponse
      in obj_insert ''message''
            (toString (obj_value errorElementObject ''message'')) errorResponse1)"

definition parseErrorResponse :: "string \<Rightarrow> jvalue option \<Rightarrow> ErrorReport" where
  "parseErrorResponse errorText jsonDocument =
     (let errorResponse = obj_insert ''message'' errorText []
      in case jsonDocument of
           Some (JObject obj) \<Rightarrow>
             (let errorsValue = obj_value obj ''errors''
              in if isArray errorsValue
                 then foldl parseErrorElement errorResponse (toArray errorsValue)
                 else errorResponse)
         | _ \<Rightarrow> errorResponse)"

text \<open>
  \<^verbatim>\<open>parsedErrorResponse.value(key)\<close> as used by the handlers: \<^verbatim>\<open>.toString()\<close> of a
  missing key is the empty string, and the comparison \<^verbatim>\<open>== "136"\<close> is false for it.
\<close>

definition report_toString :: "ErrorReport \<Rightarrow> string \<Rightarrow> string" where
  "report_toString r key = (case map_of r key of None \<Rightarrow> [] | Some s \<Rightarrow> s)"

definition report_equals :: "ErrorReport \<Rightarrow> string \<Rightarrow> string \<Rightarrow> bool" where
  "report_equals r key s = (map_of r key = Some s)"

section \<open>Requests, replies and signals\<close>

text \<open>
  A \<^verbatim>\<open>QNetworkRequest\<close>: the URL without its query, the items of its \<^verbatim>\<open>QUrlQuery\<close> in
  the order they were added, and the raw headers. \<^verbatim>\<open>setHeader(ContentTypeHeader, ...)\<close>
  is the raw header \<open>Content-Type\<close>. Percent-encoding of the items by \<^verbatim>\<open>QUrl\<close> is not
  modelled: \<^verbatim>\<open>queryItemValue\<close> returns the value as it was added. Header names are
  compared as they are spelled.
\<close>

record QNetworkRequest =
  url :: string
  urlQuery :: "(string \<times> string) list"
  rawHeaders :: "(string \<times> string) list"

definition addQueryItem :: "string \<Rightarrow> string \<Rightarrow> QNetworkRequest \<Rightarrow> QNetworkRequest" where
  "addQueryItem key v request = request\<lparr>urlQuery := urlQuery request @ [(key, v)]\<rparr>"

definition queryItemValue :: "QNetworkRequest \<Rightarrow> string \<Rightarrow> string" where
  "queryItemValue request key = (case map_of (urlQuery request) key of None \<Rightarrow> [] | Some v \<Rightarrow> v)"

definition setRawHeader :: "string \<Rightarrow> string \<Rightarrow> QNetworkRequest \<Rightarrow> QNetworkRequest" where
  "setRawHeader name v request = request\<lparr>rawHeaders := obj_insert name v (rawHeaders request)\<rparr>"

definition hasRawHeader :: "QNetworkRequest \<Rightarrow> string \<Rightarrow> bool" where
  "hasRawHeader request name = (map_of (rawHeaders request) name \<noteq> None)"

text \<open>
  Modelled from the spec: the macros below are declared in \<^verbatim>\<open>twitterapi.h\<close> and in the O2
  library, which are not part of the sources at hand. The spec calls the header "a flag
  marking whether this exchange is itself a fallback retry" and the message "a fixed
  client-side could-not-understand-response message"; the text of the message is the
  literal that the handlers of this file emit where they do not use the macro. No
  result below depends on the spelling of any of them, only on the header's name not
  being \<open>Content-Type\<close>.
\<close>

definition HEADER_NO_RECURSION :: string where
  "HEADER_NO_RECURSION = ''X-Piepmatz-No-Recursion''"

definition DEFAULT_ERROR_MESSAGE :: string where
  "DEFAULT_ERROR_MESSAGE = ''Piepmatz couldn't understand Twitter's response!''"

definition O2_MIME_TYPE_XFORM :: string where
  "O2_MIME_TYPE_XFORM = ''application/x-www-form-urlencoded''"

definition API_STATUSES_SHOW :: string where
  "API_STATUSES_SHOW = ''https://api.twitter.com/1.1/statuses/show.json''"

definition API_STATUSES_USER_TIMELINE :: string where
  "API_STATUSES_USER_TIMELINE = ''https://api.twitter.com/1.1/statuses/user_timeline.json''"

definition API_STATUSES_RETWEET_TIMELINE :: string where
  "API_STATUSES_RETWEET_TIMELINE = ''https://api.twitter.com/1.1/statuses/retweets_of_me.json''"

definition API_FRIENDSHIPS_CREATE :: string where
  "API_FRIENDSHIPS_CREATE = ''https://api.twitter.com/1.1/friendships/create.json''"

definition API_FRIENDSHIPS_DESTROY :: string where
  "API_FRIENDSHIPS_DESTROY = ''https://api.twitter.com/1.1/friendships/destroy.json''"

definition API_SEARCH_TWEETS :: string where
  "API_SEARCH_TWEETS = ''https://api.twitter.com/1.1/search/tweets.json''"

definition API_SEARCH_USERS :: string where
  "API_SEARCH_USERS = ''https://api.twitter.com/1.1/users/search.json''"

text \<open>
  A finished \<^verbatim>\<open>QNetworkReply\<close>: \<open>error = 0\<close> is \<^verbatim>\<open>QNetworkReply::NoError\<close>; \<open>readAll\<close> are
  the bytes of the body and \<open>document\<close> what \<^verbatim>\<open>QJsonDocument::fromJson\<close> decodes from
  them; \<open>contentTypeHeader\<close> is \<open>None\<close> when the header is not valid.
\<close>

record QNetworkReply =
  request :: QNetworkRequest
  error :: nat
  errorString :: string
  readAll :: string
  document :: "jvalue option"
  contentTypeHeader :: "string option"

text \<open>The signals of \<^verbatim>\<open>TwitterApi\<close> that the modelled operations emit.\<close>

datatype signal =
    showStatusSuccessful QVariantMap
  | showStatusError string
  | userTimelineSuccessful "jvalue list"
  | userTimelineError string
  | mentionsTimelineError string
  | retweetTimelineSuccessful "jvalue list"
  | retweetTimelineError string
  | followUserSuccessful QVariantMap
  | followUserError string
  | unfollowUserSuccessful QVariantMap
  | unfollowUserError string
  | searchTweetsSuccessful "jvalue list"
  | searchTweetsError string
  | searchUsersSuccessful "jvalue list"
  | searchUsersError string
  | getOpenGraphSuccessful QVariantMap
  | getOpenGraphError string

text \<open>
  The object itself holds the two requestors; the alternate one may be a null pointer.
  A requestor is named by its credentials.
\<close>

type_synonym O1Requestor = string

record TwitterApi =
  requestor :: O1Requestor
  secretIdentityRequestor :: "O1Requestor option"

text \<open>
  The pair of slots that a call connects to the reply's \<^verbatim>\<open>error\<close> and \<^verbatim>\<open>finished\<close>
  signals, named by the operation.
\<close>

datatype slots =
    ShowStatusSlots
  | UserTimelineSlots
  | RetweetTimelineSlots
  | FollowUserSlots
  | UnfollowUserSlots
  | SearchTweetsSlots
  | SearchUsersSlots

text \<open>
  What a call or a slot does, in order: it starts an exchange through a requestor
  (\<^verbatim>\<open>get\<close> or \<^verbatim>\<open>post\<close> with the request and the signed parameters, the reply connected to
  a pair of slots) or it emits a signal.
\<close>

datatype action =
    Get O1Requestor QNetworkRequest "(string \<times> string) list" slots
  | Post O1Requestor QNetworkRequest "(string \<times> string) list" slots
  | Emit signal

section \<open>String helpers of Qt\<close>

text \<open>\<^verbatim>\<open>QString::indexOf(QChar)\<close> returns -1 when the character does not occur.\<close>

fun indexOf :: "string \<Rightarrow> char \<Rightarrow> int" where
  "indexOf [] c = - 1"
| "indexOf (x # xs) c =
     (if x = c then 0 else (let i = indexOf xs c in if i < 0 then - 1 else i + 1))"

text \<open>\<^verbatim>\<open>QString::left(n)\<close>: the whole string when \<open>n\<close> is negative or not less than the size.\<close>

definition left :: "string \<Rightarrow> int \<Rightarrow> string" where
  "left s n = (if n < 0 \<or> int (length s) \<le> n then s else take (nat n) s)"

text \<open>
  \<^verbatim>\<open>QUrl::toPercentEncoding\<close>: every byte but the unreserved ones (letters, digits,
  \<open>-\<close>, \<open>.\<close>, \<open>_\<close>, \<open>~\<close>) becomes \<open>%HH\<close>.
\<close>

definition hex_digit :: "nat \<Rightarrow> char" where
  "hex_digit d = ''0123456789ABCDEF'' ! d"

definition unreserved :: "char \<Rightarrow> bool" where
  "unreserved c =
     (let n = (of_char c :: nat)
      in (65 \<le> n \<and> n \<le> 90) \<or> (97 \<le> n \<and> n \<le> 122) \<or> (48 \<le> n \<and> n \<le> 57)
         \<or> c \<in> set ''-._~'')"

definition toPercentEncoding :: "string \<Rightarrow> string" where
  "toPercentEncoding s =
     concat (map (\<lambda>c. if unreserved c then [c]
                       else [CHR ''%'', hex_digit (of_char c div 16), hex_digit (of_char c mod 16)]) s)"

section \<open>The calls\<close>

definition showStatus :: "TwitterApi \<Rightarrow> string \<Rightarrow> bool \<Rightarrow> action list" where
  "showStatus api statusId useSecretIdentity =
     (let qm = indexOf statusId CHR ''?'';
          sanitizedStatus = (if qm \<ge> 0 then left statusId qm else statusId);
          requestParameters =
            [(''tweet_mode'', ''extended''), (''include_entities'', ''true''),
             (''trim_user'', ''false''), (''id'', sanitizedStatus),
             (''include_ext_alt_text'', ''true'')];
          request = \<lparr>url = API_STATUSES_SHOW, urlQuery = requestParameters,
                     rawHeaders = [(''Content-Type'', O2_MIME_TYPE_XFORM)]\<rparr>
      in if useSecretIdentity \<and> secretIdentityRequestor api \<noteq> None
         then [Get (the (secretIdentityRequestor api))
                 (setRawHeader HEADER_NO_RECURSION ''X'' request) requestParameters ShowStatusSlots]
         else [Get (requestor api) request requestParameters ShowStatusSlots])"

definition userTimeline :: "TwitterApi \<Rightarrow> string \<Rightarrow> bool \<Rightarrow> action list" where
  "userTimeline api screenName useSecretIdentity =
     (let requestParameters =
            [(''tweet_mode'', ''extended''), (''count'', ''200''), (''include_rts'', ''true''),
             (''exclude_replies'', ''false''), (''screen_name'', screenName),
             (''include_ext_alt_text'', ''true'')];
          request = \<lparr>url = API_STATUSES_USER_TIMELINE, urlQuery = requestParameters,
                     rawHeaders = [(''Content-Type'', O2_MIME_TYPE_XFORM)]\<rparr>
      in if useSecretIdentity \<and> secretIdentityRequestor api \<noteq> None
         then [Get (the (secretIdentityRequestor api))
                 (setRawHeader HEADER_NO_RECURSION ''X'' request) requestParameters UserTimelineSlots]
         else [Get (requestor api) request requestParameters UserTimelineSlots])"

definition retweetTimeline :: "TwitterApi \<Rightarrow> action list" where
  "retweetTimeline api =
     (let requestParameters =
            [(''tweet_mode'', ''extended''), (''include_entities'', ''true''),
             (''trim_user'', ''false''), (''count'', ''10''),
             (''include_ext_alt_text'', ''true'')];
          request = \<lparr>url = API_STATUSES_RETWEET_TIMELINE, urlQuery = requestParameters,
                     rawHeaders = [(''Content-Type'', O2_MIME_TYPE_XFORM)]\<rparr>
      in [Get (requestor api) request requestParameters RetweetTimelineSlots])"

definition followUser :: "TwitterApi \<Rightarrow> string \<Rightarrow> action list" where
  "followUser api screenName =
     (let requestParameters = [(''tweet_mode'', ''extended''), (''screen_name'', screenName)];
          request = \<lparr>url = API_FRIENDSHIPS_CREATE, urlQuery = [],
                     rawHeaders = [(''Content-Type'', O2_MIME_TYPE_XFORM)]\<rparr>
      in [Post (requestor api) request requestParameters FollowUserSlots])"

definition unfollowUser :: "TwitterApi \<Rightarrow> string \<Rightarrow> action list" where
  "unfollowUser api screenName =
     (let requestParameters = [(''tweet_mode'', ''extended''), (''screen_name'', screenName)];
          request = \<lparr>url = API_FRIENDSHIPS_DESTROY, urlQuery = [],
                     rawHeaders = [(''Content-Type'', O2_MIME_TYPE_XFORM)]\<rparr>
      in [Post (requestor api) request requestParameters UnfollowUserSlots])"

definition searchTweets :: "TwitterApi \<Rightarrow> string \<Rightarrow> action list" where
  "searchTweets api query =
     (if query = [] then [Emit (searchTweetsSuccessful [])]
      else
        (let searchString = toPercentEncoding query;
             request = \<lparr>url = API_SEARCH_TWEETS,
                        urlQuery = [(''tweet_mode'', ''extended''), (''q'', searchString),
                                    (''count'', ''100''), (''include_entities'', ''true''),
                                    (''include_ext_alt_text'', ''true'')],
                        rawHeaders = [(''Content-Type'', O2_MIME_TYPE_XFORM)]\<rparr>;
             requestParameters =
               [(''tweet_mode'', ''extended''), (''q'', query), (''count'', ''100''),
                (''include_entities'', ''true''), (''include_ext_alt_text'', ''true'')]
         in [Get (requestor api) request requestParameters SearchTweetsSlots]))"

definition searchUsers :: "TwitterApi \<Rightarrow> string \<Rightarrow> action list" where
  "searchUsers api query =
     (if query = [] then [Emit (searchUsersSuccessful [])]
      else
        (let searchString = toPercentEncoding query;
             request = \<lparr>url = API_SEARCH_USERS,
                        urlQuery = [(''tweet_mode'', ''extended''), (''q'', searchString),
                                    (''count'', ''20''), (''include_entities'', ''true'')],
                        rawHeaders = [(''Content-Type'', O2_MIME_TYPE_XFORM)]\<rparr>;
             requestParameters =
               [(''tweet_mode'', ''extended''), (''q'', query), (''count'', ''20''),
                (''include_entities'', ''true'')]
         in [Get (requestor api) request requestParameters SearchUsersSlots]))"

section \<open>The slots\<close>

text \<open>
  Each slot reads the reply that sent the signal (\<^verbatim>\<open>sender()\<close>) and returns what it
  does. The error slots ignore the numeric \<^verbatim>\<open>NetworkError\<close> but for logging.
\<close>

text \<open>
  \<^verbatim>\<open>genericHandlerFailure(title, reply, errorCode, errorSignal)\<close>, the failure slot of the
  generic request path: it emits the error signal that the call handed over. The
  refactored copy of the file sends the retweet timeline through it, with
  \<^verbatim>\<open>STANDARD_REQ(TwitterApi::retweetTimeline)\<close>, which names \<open>retweetTimelineError\<close>.
\<close>

definition genericHandlerFailure :: "(string \<Rightarrow> signal) \<Rightarrow> QNetworkReply \<Rightarrow> action list" where
  "genericHandlerFailure errorSignal reply =
     (let parsedErrorResponse = parseErrorResponse (errorString reply) (document reply)
      in [Emit (errorSignal (report_toString parsedErrorResponse ''message''))])"

definition handleRetweetTimelineError :: "QNetworkReply \<Rightarrow> action list" where
  "handleRetweetTimelineError reply =
     (let parsedErrorResponse = parseErrorResponse (errorString reply) (document reply)
      in [Emit (mentionsTimelineError (report_toString parsedErrorResponse ''message''))])"

definition handleRetweetTimelineFinished :: "QNetworkReply \<Rightarrow> action list" where
  "handleRetweetTimelineFinished reply =
     (if error reply \<noteq> 0 then []
      else case document reply of
             Some (JArray responseArray) \<Rightarrow> [Emit (retweetTimelineSuccessful responseArray)]
           | _ \<Rightarrow> [Emit (retweetTimelineError ''Piepmatz couldn't understand Twitter's response!'')])"

definition handleUserTimelineError :: "TwitterApi \<Rightarrow> QNetworkReply \<Rightarrow> action list" where
  "handleUserTimelineError api reply =
     (let parsedErrorResponse = parseErrorResponse (errorString reply) (document reply)
      in if secretIdentityRequestor api \<noteq> None
            \<and> report_equals parsedErrorResponse ''code'' ''136''
            \<and> \<not> hasRawHeader (request reply) HEADER_NO_RECURSION
         then userTimeline api (queryItemValue (request reply) ''screen_name'') True
         else [Emit (userTimelineError (report_toString parsedErrorResponse ''message''))])"

definition handleUserTimelineFinished :: "QNetworkReply \<Rightarrow> action list" where
  "handleUserTimelineFinished reply =
     (if error reply \<noteq> 0 then []
      else case document reply of
             Some (JArray responseArray) \<Rightarrow> [Emit (userTimelineSuccessful responseArray)]
           | _ \<Rightarrow> [Emit (userTimelineError ''Piepmatz couldn't understand Twitter's response!'')])"

text \<open>The placeholder that \<^verbatim>\<open>handleShowStatusError\<close> builds in its else branch.\<close>

definition fakeTweet :: "string \<Rightarrow> string \<Rightarrow> QVariantMap" where
  "fakeTweet id_str full_text =
     (let fakeTweet1 = obj_insert ''fakeTweet'' (JBool True) [];
          fakeUser1 = obj_insert ''name'' (JString []) [];
          fakeUser2 = obj_insert ''verified'' (JBool False) fakeUser1;
          fakeUser3 = obj_insert ''protected'' (JBool False) fakeUser2;
          fakeUser = obj_insert ''profile_image_url_https'' (JString []) fakeUser3;
          fakeTweet2 = obj_insert ''user'' (JObject fakeUser) fakeTweet1;
          fakeTweet3 = obj_insert ''source'' (JString ''Piepmatz'') fakeTweet2;
          fakeTweet4 = obj_insert ''retweeted'' (JBool False) fakeTweet3;
          fakeTweet5 = obj_insert ''favorited'' (JBool False) fakeTweet4;
          fakeEntities1 = obj_insert ''hashtags'' (JArray []) [];
          fakeEntities2 = obj_insert ''symbols'' (JArray []) fakeEntities1;
          fakeEntities3 = obj_insert ''urls'' (JArray []) fakeEntities2;
          fakeEntities = obj_insert ''user_mentions'' (JArray []) fakeEntities3;
          fakeTweet6 = obj_insert ''entities'' (JObject fakeEntities) fakeTweet5;
          fakeTweet7 = obj_insert ''created_at'' (JString ''Sun Jan 05 13:05:00 +0000 2020'') fakeTweet6;
          fakeTweet8 = obj_insert ''id_str'' (JString id_str) fakeTweet7
      in obj_insert ''full_text'' (JString full_text) fakeTweet8)"

definition handleShowStatusError :: "TwitterApi \<Rightarrow> QNetworkReply \<Rightarrow> action list" where
  "handleShowStatusError api reply =
     (let parsedErrorResponse = parseErrorResponse (errorString reply) (document reply)
      in if secretIdentityRequestor api \<noteq> None
            \<and> report_equals parsedErrorResponse ''code'' ''136''
            \<and> \<not> hasRawHeader (request reply) HEADER_NO_RECURSION
         then showStatus api (queryItemValue (request reply) ''id'') True
         else [Emit (showStatusSuccessful
                 (fakeTweet (queryItemValue (request reply) ''id'')
                    (report_toString parsedErrorResponse ''message'')))])"

definition handleShowStatusFinished :: "QNetworkReply \<Rightarrow> action list" where
  "handleShowStatusFinished reply =
     (if error reply \<noteq> 0 then []
      else case document reply of
             Some (JObject responseObject) \<Rightarrow> [Emit (showStatusSuccessful responseObject)]
           | _ \<Rightarrow> [Emit (showStatusError ''Piepmatz couldn't understand Twitter's response!'')])"

definition handleFollowUserError :: "QNetworkReply \<Rightarrow> action list" where
  "handleFollowUserError reply =
     (let parsedErrorResponse = parseErrorResponse (errorString reply) (document reply)
      in [Emit (followUserError (report_toString parsedErrorResponse ''message''))])"

definition handleFollowUserFinished :: "QNetworkReply \<Rightarrow> action list" where
  "handleFollowUserFinished reply =
     (if error reply \<noteq> 0 then []
      else case document reply of
             Some (JObject responseObject) \<Rightarrow>
               (let responseObject1 = obj_remove ''following'' responseObject;
                    responseObject2 = obj_insert ''following'' (JBool True) responseObject1
                in [Emit (followUserSuccessful responseObject2)])
           | _ \<Rightarrow> [Emit (followUserError DEFAULT_ERROR_MESSAGE)])"

definition handleUnfollowUserError :: "QNetworkReply \<Rightarrow> action list" where
  "handleUnfollowUserError reply =
     (let parsedErrorResponse = parseErrorResponse (errorString reply) (document reply)
      in [Emit (unfollowUserError (report_toString parsedErrorResponse ''message''))])"

definition handleUnfollowUserFinished :: "QNetworkReply \<Rightarrow> action list" where
  "handleUnfollowUserFinished reply =
     (if error reply \<noteq> 0 then []
      else case document reply of
             Some (JObject responseObject) \<Rightarrow>
               (let responseObject1 = obj_remove ''following'' responseObject;
                    responseObject2 = obj_insert ''following'' (JBool False) responseObject1
                in [Emit (unfollowUserSuccessful responseObject2)])
           | _ \<Rightarrow> [Emit (unfollowUserError DEFAULT_ERROR_MESSAGE)])"

definition handleSearchTweetsError :: "QNetworkReply \<Rightarrow> action list" where
  "handleSearchTweetsError reply =
     (let parsedErrorResponse = parseErrorResponse (errorString reply) (document reply)
      in [Emit (searchTweetsError (report_toString parsedErrorResponse ''message''))])"

text \<open>
  The loop of \<^verbatim>\<open>handleSearchTweetsFinished\<close> over \<^verbatim>\<open>originalResultsArray\<close>: its state is
  the pair of \<^verbatim>\<open>foundStatusIds\<close> and \<^verbatim>\<open>resultsArray\<close>, and one step reads one entry.
\<close>

definition currentStatusId :: "QJsonObject \<Rightarrow> string" where
  "currentStatusId currentObject =
     (if obj_contains currentObject ''retweeted_status''
      then toString (obj_value (toObject (obj_value currentObject ''retweeted_status'')) ''id_str'')
      else toString (obj_value currentObject ''id_str''))"

definition dedupStep :: "string list \<times> QJsonObject list \<Rightarrow> jvalue \<Rightarrow> string list \<times> QJsonObject list" where
  "dedupStep st entry =
     (let foundStatusIds = fst st; resultsArray = snd st;
          currentObject = toObject entry;
          sid = currentStatusId currentObject
      in if sid \<notin> set foundStatusIds
         then (foundStatusIds @ [sid], resultsArray @ [currentObject])
         else (foundStatusIds, resultsArray))"

definition dedupStatuses :: "jvalue list \<Rightarrow> QJsonObject list" where
  "dedupStatuses originalResultsArray = snd (foldl dedupStep ([], []) originalResultsArray)"

definition handleSearchTweetsFinished :: "QNetworkReply \<Rightarrow> action list" where
  "handleSearchTweetsFinished reply =
     (if error reply \<noteq> 0 then []
      else case document reply of
             Some (JObject responseObject) \<Rightarrow>
               (let originalResultsArray = toArray (obj_value responseObject ''statuses'')
                in [Emit (searchTweetsSuccessful (map JObject (dedupStatuses originalResultsArray)))])
           | _ \<Rightarrow> [Emit (searchTweetsError DEFAULT_ERROR_MESSAGE)])"

definition handleSearchUsersError :: "QNetworkReply \<Rightarrow> action list" where
  "handleSearchUsersError reply =
     (let parsedErrorResponse = parseErrorResponse (errorString reply) (document reply)
      in [Emit (searchUsersError (report_toString parsedErrorResponse ''message''))])"

definition handleSearchUsersFinished :: "QNetworkReply \<Rightarrow> action list" where
  "handleSearchUsersFinished reply =
     (if error reply \<noteq> 0 then []
      else case document reply of
             Some (JArray responseArray) \<Rightarrow> [Emit (searchUsersSuccessful responseArray)]
           | _ \<Rightarrow> [Emit (searchUsersError DEFAULT_ERROR_MESSAGE)])"

section \<open>Link previews\<close>

text \<open>
  The patterns of \<^verbatim>\<open>handleGetOpenGraphFinished\<close>, each written out as the matcher it
  is. No pattern needs backtracking: every repetition is followed by a character
  outside its class, or by a repetition that may be empty.

  White space differs between the two engines. The charset pattern is a
  \<^verbatim>\<open>QRegularExpression\<close> without the Unicode option, whose \<open>\s\<close> is the six ASCII
  characters. The tag patterns are \<^verbatim>\<open>QRegExp\<close>s, whose \<open>\s\<close> is \<^verbatim>\<open>QChar::isSpace\<close>: up
  to U+00FF these are the same six, the next-line character U+0085 and the no-break
  space U+00A0.
\<close>

definition isSpace :: "char \<Rightarrow> bool" where
  "isSpace c = (c \<in> set [CHR 0x20, CHR 0x09, CHR 0x0A, CHR 0x0B, CHR 0x0C, CHR 0x0D])"

definition QChar_isSpace :: "char \<Rightarrow> bool" where
  "QChar_isSpace c = (isSpace c \<or> c = CHR 0x85 \<or> c = CHR 0xA0)"

text \<open>
  \<^verbatim>\<open>QString::toUpper\<close> on the ASCII letters, which is all that the charset names and the
  needle \<open>text/html\<close> hold.
\<close>

definition toUpper_char :: "char \<Rightarrow> char" where
  "toUpper_char c = (let n = (of_char c :: nat) in if 97 \<le> n \<and> n \<le> 122 then char_of (n - 32) else c)"

definition toUpper :: "string \<Rightarrow> string" where
  "toUpper s = map toUpper_char s"

fun match_prefix :: "string \<Rightarrow> string \<Rightarrow> string option" where
  "match_prefix [] s = Some s"
| "match_prefix (p # ps) [] = None"
| "match_prefix (p # ps) (c # cs) = (if p = c then match_prefix ps cs else None)"

text \<open>\<^verbatim>\<open>indexOf(needle, 0, Qt::CaseInsensitive) != -1\<close>.\<close>

fun occursIn :: "string \<Rightarrow> string \<Rightarrow> bool" where
  "occursIn needle [] = (needle = [])"
| "occursIn needle (c # cs) = (match_prefix needle (c # cs) \<noteq> None \<or> occursIn needle cs)"

definition containsCaseInsensitive :: "string \<Rightarrow> string \<Rightarrow> bool" where
  "containsCaseInsensitive s needle = occursIn (toUpper needle) (toUpper s)"

text \<open>
  \<^verbatim>\<open>charset\s*\=[\s\"\']*([^\s\"\'\,>]*)\<close> matched at the start of a string: the text
  captured by group 1 and the rest of the string after the match.
\<close>

definition charsetChar :: "char \<Rightarrow> bool" where
  "charsetChar c = (\<not> isSpace c \<and> c \<noteq> CHR 0x22 \<and> c \<noteq> CHR 0x27 \<and> c \<noteq> CHR '','' \<and> c \<noteq> CHR ''>'')"

definition charsetMatchAt :: "string \<Rightarrow> (string \<times> string) option" where
  "charsetMatchAt s =
     (case match_prefix ''charset'' s of
        None \<Rightarrow> None
      | Some r1 \<Rightarrow>
          (case dropWhile isSpace r1 of
             [] \<Rightarrow> None
           | c # r2 \<Rightarrow>
               if c \<noteq> CHR ''='' then None
               else (let r3 = dropWhile (\<lambda>c. isSpace c \<or> c = CHR 0x22 \<or> c = CHR 0x27) r2
                     in Some (takeWhile charsetChar r3, dropWhile charsetChar r3))))"

text \<open>
  The tag pattern for \<open>og:NAME\<close> matched at the start of a string: the literal
  \<^verbatim>\<open><meta\<close>, white space, \<^verbatim>\<open>property="og:NAME"\<close>, white space, \<^verbatim>\<open>content="\<close>, group 1 (one
  or more characters other than the double quote) and the closing double quote. The
  result is the text captured by group 1.
\<close>

definition ogMatchAt :: "string \<Rightarrow> string \<Rightarrow> string option" where
  "ogMatchAt name s =
     (case match_prefix ''<meta'' s of
        None \<Rightarrow> None
      | Some r1 \<Rightarrow>
          if takeWhile QChar_isSpace r1 = [] then None
          else
            (case match_prefix (''property='' @ [CHR 0x22] @ ''og:'' @ name @ [CHR 0x22])
                    (dropWhile QChar_isSpace r1) of
               None \<Rightarrow> None
             | Some r2 \<Rightarrow>
                 if takeWhile QChar_isSpace r2 = [] then None
                 else
                   (case match_prefix (''content='' @ [CHR 0x22]) (dropWhile QChar_isSpace r2) of
                      None \<Rightarrow> None
                    | Some r3 \<Rightarrow>
                        (let captured = takeWhile (\<lambda>c. c \<noteq> CHR 0x22) r3
                         in if captured \<noteq> [] \<and> dropWhile (\<lambda>c. c \<noteq> CHR 0x22) r3 \<noteq> []
                            then Some captured else None))))"

text \<open>
  \<^verbatim>\<open>QRegExp::indexIn\<close> followed by \<^verbatim>\<open>cap(1)\<close>: the capture of the leftmost match, or
  \<open>None\<close> when \<^verbatim>\<open>indexIn\<close> returns -1.
\<close>

fun ogIndexIn :: "string \<Rightarrow> string \<Rightarrow> string option" where
  "ogIndexIn name [] = None"
| "ogIndexIn name (c # cs) =
     (case ogMatchAt name (c # cs) of Some captured \<Rightarrow> Some captured | None \<Rightarrow> ogIndexIn name cs)"

text \<open>The address \<^verbatim>\<open>reply->request().url().toString()\<close>.\<close>

fun queryString :: "(string \<times> string) list \<Rightarrow> string" where
  "queryString [] = []"
| "queryString [(k, v)] = k @ ''='' @ v"
| "queryString ((k, v) # items) = k @ ''='' @ v @ ''&'' @ queryString items"

definition url_toString :: "QNetworkRequest \<Rightarrow> string" where
  "url_toString req =
     url req @ (if urlQuery req = [] then [] else CHR ''?'' # queryString (urlQuery req))"

text \<open>
  The second half of \<^verbatim>\<open>handleGetOpenGraphFinished\<close>: the four searches over the decoded
  document and the result that is emitted.
\<close>

definition openGraphTags :: "string \<Rightarrow> (string \<times> string) list" where
  "openGraphTags resultDocument =
     (let openGraphData0 = [];
          openGraphData1 = (case ogIndexIn ''url'' resultDocument of
              Some cap \<Rightarrow> obj_insert ''url'' cap openGraphData0 | None \<Rightarrow> openGraphData0);
          openGraphData2 = (case ogIndexIn ''image'' resultDocument of
              Some cap \<Rightarrow> obj_insert ''image'' cap openGraphData1 | None \<Rightarrow> openGraphData1);
          openGraphData3 = (case ogIndexIn ''description'' resultDocument of
              Some cap \<Rightarrow> obj_insert ''description'' cap openGraphData2 | None \<Rightarrow> openGraphData2)
      in (case ogIndexIn ''title'' resultDocument of
              Some cap \<Rightarrow> obj_insert ''title'' cap openGraphData3 | None \<Rightarrow> openGraphData3))"

definition openGraphResult :: "string \<Rightarrow> string \<Rightarrow> action list" where
  "openGraphResult requestAddress resultDocument =
     (let openGraphData = openGraphTags resultDocument
      in if openGraphData = []
         then [Emit (getOpenGraphError (requestAddress @ '' does not contain Open Graph data''))]
         else
           (let openGraphData1 = obj_insert ''url'' requestAddress openGraphData;
                openGraphData2 =
                  (if map_of openGraphData1 ''title'' = None
                   then obj_insert ''title'' (report_toString openGraphData1 ''url'') openGraphData1
                   else openGraphData1)
            in [Emit (getOpenGraphSuccessful (map (\<lambda>(k, v). (k, JString v)) openGraphData2))]))"

text \<open>
  \<^verbatim>\<open>globalMatch\<close> over the content type: the captures of the successive matches, each
  search starting where the match before it ended. A match is never empty (it holds
  the word \<open>charset\<close>), which is why the iteration ends.
\<close>

lemma match_prefix_length: "match_prefix p s = Some r \<Longrightarrow> length r + length p = length s"
  by (induction p s arbitrary: r rule: match_prefix.induct) (auto split: if_splits)

lemma charsetMatchAt_shorter:
  assumes "charsetMatchAt s = Some (captured, rest)"
  shows "length rest < length s"
proof -
  from assms obtain r1 r2 where
    r1: "match_prefix ''charset'' s = Some r1" and
    r2: "dropWhile isSpace r1 = CHR ''='' # r2" and
    rest: "rest = dropWhile charsetChar
             (dropWhile (\<lambda>c. isSpace c \<or> c = CHR 0x22 \<or> c = CHR 0x27) r2)"
    by (auto simp: charsetMatchAt_def Let_def split: option.splits list.splits if_splits)
  have "length rest \<le> length r2"
    unfolding rest by (meson length_dropWhile_le order_trans)
  moreover have "length (CHR ''='' # r2) \<le> length r1"
    using length_dropWhile_le [of isSpace r1] by (simp only: r2)
  moreover have "length r1 \<le> length s"
    using match_prefix_length [OF r1] by simp
  ultimately show ?thesis by simp
qed

function charsetGlobalMatch :: "string \<Rightarrow> string list" where
  "charsetGlobalMatch [] = []"
| "charsetGlobalMatch (c # cs) =
     (case charsetMatchAt (c # cs) of
        Some (captured, rest) \<Rightarrow> captured # charsetGlobalMatch rest
      | None \<Rightarrow> charsetGlobalMatch cs)"
  by pat_completeness auto
termination
  by (relation "measure length") (auto dest: charsetMatchAt_shorter)

text \<open>
  The first half of \<^verbatim>\<open>handleGetOpenGraphFinished\<close>: the name of the codec. The codecs are
  Qt's: \<^verbatim>\<open>QTextCodec::codecForName\<close> is a parameter, and it returns a null pointer (\<open>None\<close>)
  for a name it does not know. The slot calls \<^verbatim>\<open>toUnicode\<close> on what it returns without a
  check, which is a fault for a null pointer.
\<close>

definition openGraphCharset :: "string \<Rightarrow> string" where
  "openGraphCharset contentType =
     (let availableCharsets = map toUpper (charsetGlobalMatch contentType)
      in if length availableCharsets > 0 \<and> ''UTF-8'' \<notin> set availableCharsets
         then last availableCharsets
         else ''UTF-8'')"

datatype fault = NullCodec

type_synonym QTextCodec = "string \<Rightarrow> string"

definition handleGetOpenGraphFinished ::
    "(string \<Rightarrow> QTextCodec option) \<Rightarrow> QNetworkReply \<Rightarrow> fault + action list" where
  "handleGetOpenGraphFinished codecForName reply =
     (if error reply \<noteq> 0 then Inr []
      else
        (let requestAddress = url_toString (request reply)
         in case contentTypeHeader reply of
              None \<Rightarrow> Inr []
            | Some contentType \<Rightarrow>
                if \<not> containsCaseInsensitive contentType ''text/html'' then Inr []
                else
                  (let charset = openGraphCharset contentType;
                       rawDocument = readAll reply
                   in case codecForName charset of
                        None \<Rightarrow> Inl NullCodec
                      | Some toUnicode \<Rightarrow>
                          Inr (openGraphResult requestAddress (toUnicode rawDocument)))))"

section \<open>The event loop\<close>

text \<open>
  A reply that fails sends \<^verbatim>\<open>error\<close> and then \<^verbatim>\<open>finished\<close>; a reply that succeeds sends
  \<^verbatim>\<open>finished\<close> alone. \<open>replyCompleted\<close> runs the slots that the call connected.
\<close>

definition errorSlot :: "TwitterApi \<Rightarrow> slots \<Rightarrow> QNetworkReply \<Rightarrow> action list" where
  "errorSlot api sl reply =
     (case sl of
        ShowStatusSlots \<Rightarrow> handleShowStatusError api reply
      | UserTimelineSlots \<Rightarrow> handleUserTimelineError api reply
      | RetweetTimelineSlots \<Rightarrow> handleRetweetTimelineError reply
      | FollowUserSlots \<Rightarrow> handleFollowUserError reply
      | UnfollowUserSlots \<Rightarrow> handleUnfollowUserError reply
      | SearchTweetsSlots \<Rightarrow> handleSearchTweetsError reply
      | SearchUsersSlots \<Rightarrow> handleSearchUsersError reply)"

definition finishedSlot :: "slots \<Rightarrow> QNetworkReply \<Rightarrow> action list" where
  "finishedSlot sl reply =
     (case sl of
        ShowStatusSlots \<Rightarrow> handleShowStatusFinished reply
      | UserTimelineSlots \<Rightarrow> handleUserTimelineFinished reply
      | RetweetTimelineSlots \<Rightarrow> handleRetweetTimelineFinished reply
      | FollowUserSlots \<Rightarrow> handleFollowUserFinished reply
      | UnfollowUserSlots \<Rightarrow> handleUnfollowUserFinished reply
      | SearchTweetsSlots \<Rightarrow> handleSearchTweetsFinished reply
      | SearchUsersSlots \<Rightarrow> handleSearchUsersFinished reply)"

definition replyCompleted :: "TwitterApi \<Rightarrow> slots \<Rightarrow> QNetworkReply \<Rightarrow> action list" where
  "replyCompleted api sl reply =
     (if error reply \<noteq> 0 then errorSlot api sl reply @ finishedSlot sl reply
      else finishedSlot sl reply)"

text \<open>
  The remote side answers an exchange with a reply; the reply's request is the one that
  was sent. The measure of the loop counts an exchange without the no-recursion header
  as 4, one with it as 2 and a signal as 1.
\<close>

type_synonym network = "O1Requestor \<Rightarrow> QNetworkRequest \<Rightarrow> QNetworkReply"

definition answer :: "network \<Rightarrow> O1Requestor \<Rightarrow> QNetworkRequest \<Rightarrow> QNetworkReply" where
  "answer net rq req = (net rq req)\<lparr>request := req\<rparr>"

fun weight :: "action \<Rightarrow> nat" where
  "weight (Emit s) = 1"
| "weight (Get rq req ps sl) = (if hasRawHeader req HEADER_NO_RECURSION then 2 else 4)"
| "weight (Post rq req ps sl) = (if hasRawHeader req HEADER_NO_RECURSION then 2 else 4)"

lemma hasRawHeader_setRawHeader: "hasRawHeader (setRawHeader name v req) name"
  by (simp add: hasRawHeader_def setRawHeader_def obj_insert_def update_conv')

lemma weight_showStatus_secret:
  "secretIdentityRequestor api \<noteq> None \<Longrightarrow> sum_list (map weight (showStatus api statusId True)) = 2"
  by (simp add: showStatus_def Let_def hasRawHeader_setRawHeader)

lemma weight_userTimeline_secret:
  "secretIdentityRequestor api \<noteq> None \<Longrightarrow> sum_list (map weight (userTimeline api screenName True)) = 2"
  by (simp add: userTimeline_def Let_def hasRawHeader_setRawHeader)

lemma weight_errorSlot:
  "sum_list (map weight (errorSlot api sl reply))
     \<le> (if hasRawHeader (request reply) HEADER_NO_RECURSION then 1 else 2)"
  by (cases sl)
     (simp_all add: errorSlot_def handleShowStatusError_def handleUserTimelineError_def
        handleRetweetTimelineError_def handleFollowUserError_def handleUnfollowUserError_def
        handleSearchTweetsError_def handleSearchUsersError_def Let_def
        weight_showStatus_secret weight_userTimeline_secret)

lemma weight_finishedSlot:
  "sum_list (map weight (finishedSlot sl reply)) \<le> (if error reply \<noteq> 0 then 0 else 1)"
  by (cases sl)
     (simp_all add: finishedSlot_def handleShowStatusFinished_def handleUserTimelineFinished_def
        handleRetweetTimelineFinished_def handleFollowUserFinished_def
        handleUnfollowUserFinished_def handleSearchTweetsFinished_def
        handleSearchUsersFinished_def Let_def split: option.splits jvalue.splits)

lemma weight_replyCompleted:
  "sum_list (map weight (replyCompleted api sl reply))
     < (if hasRawHeader (request reply) HEADER_NO_RECURSION then 2 else 4)"
proof -
  have e: "sum_list (map weight (errorSlot api sl reply))
             \<le> (if hasRawHeader (request reply) HEADER_NO_RECURSION then 1 else 2)"
    by (rule weight_errorSlot)
  have f: "sum_list (map weight (finishedSlot sl reply)) \<le> (if error reply \<noteq> 0 then 0 else 1)"
    by (rule weight_finishedSlot)
  show ?thesis
  proof (cases "error reply \<noteq> 0")
    case True
    have "sum_list (map weight (replyCompleted api sl reply))
            = sum_list (map weight (errorSlot api sl reply))
              + sum_list (map weight (finishedSlot sl reply))"
      using True by (simp add: replyCompleted_def)
    also have "\<dots> \<le> (if hasRawHeader (request reply) HEADER_NO_RECURSION then 1 else 2) + 0"
      using e f True by (intro add_mono) simp_all
    finally show ?thesis by (simp split: if_splits)
  next
    case False
    have "sum_list (map weight (replyCompleted api sl reply))
            = sum_list (map weight (finishedSlot sl reply))"
      using False by (simp add: replyCompleted_def)
    also have "\<dots> \<le> 1" using f False by simp
    finally show ?thesis by (simp split: if_splits)
  qed
qed

lemma request_answer: "request (answer net rq req) = req"
  by (simp add: answer_def)

text \<open>
  The loop takes the pending actions in order. A signal reaches the caller; an exchange
  is answered by the network and the slots of its reply add what they do to the
  pending actions. The result is everything that happened, in order.
\<close>

function run :: "TwitterApi \<Rightarrow> network \<Rightarrow> action list \<Rightarrow> action list" where
  "run api net [] = []"
| "run api net (Emit s # pending) = Emit s # run api net pending"
| "run api net (Get rq req ps sl # pending) =
     Get rq req ps sl # run api net (pending @ replyCompleted api sl (answer net rq req))"
| "run api net (Post rq req ps sl # pending) =
     Post rq req ps sl # run api net (pending @ replyCompleted api sl (answer net rq req))"
  by pat_completeness auto
termination
proof (relation "measure (\<lambda>(api, net, pending). sum_list (map weight pending))")
  show "wf (measure (\<lambda>(api, net, pending). sum_list (map weight pending)))" by simp
next
  fix api :: TwitterApi and net :: network and s pending
  show "((api, net, pending), (api, net, Emit s # pending))
          \<in> measure (\<lambda>(api, net, pending). sum_list (map weight pending))"
    by simp
next
  fix api :: TwitterApi and net :: network and rq req ps sl pending
  show "((api, net, pending @ replyCompleted api sl (answer net rq req)),
          (api, net, Get rq req ps sl # pending))
          \<in> measure (\<lambda>(api, net, pending). sum_list (map weight pending))"
    using weight_replyCompleted [of api sl "answer net rq req"]
    by (simp add: request_answer)
next
  fix api :: TwitterApi and net :: network and rq req ps sl pending
  show "((api, net, pending @ replyCompleted api sl (answer net rq req)),
          (api, net, Post rq req ps sl # pending))
          \<in> measure (\<lambda>(api, net, pending). sum_list (map weight pending))"
    using weight_replyCompleted [of api sl "answer net rq req"]
    by (simp add: request_answer)
qed

text \<open>What the caller and the remote side see of a run: the exchanges and the signals.\<close>

definition exchanges :: "action list \<Rightarrow> action list" where
  "exchanges as = filter (\<lambda>a. case a of Emit s \<Rightarrow> False | _ \<Rightarrow> True) as"

definition signals :: "action list \<Rightarrow> signal list" where
  "signals as = concat (map (\<lambda>a. case a of Emit s \<Rightarrow> [s] | _ \<Rightarrow> []) as)"

section \<open>The de-duplication rule as specified\<close>

text \<open>
  The rule of the search de-duplication in the words of the specification: of the
  entries that share an underlying identifier the first in response order is kept, and
  the kept entries stay in their order. Entry \<open>i\<close> is kept when no entry before it has
  its key.
\<close>

definition firstOfEachStatusId :: "('a \<Rightarrow> string) \<Rightarrow> 'a list \<Rightarrow> 'a list" where
  "firstOfEachStatusId key xs =
     map (\<lambda>i. xs ! i)
       (filter (\<lambda>i. key (xs ! i) \<notin> set (map key (take i xs))) [0..<length xs])"

section \<open>Example exchanges\<close>

text \<open>
  An object with an alternate identity and one without, a reply that reports error 136
  and a reply that carries a tweet; the replies are used below with and without the
  no-recursion header on their request.
\<close>

definition exampleApi :: TwitterApi where
  "exampleApi = \<lparr>requestor = ''primary'', secretIdentityRequestor = Some ''secret''\<rparr>"

definition blockedReply :: QNetworkReply where
  "blockedReply =
     \<lparr>request = \<lparr>url = [], urlQuery = [], rawHeaders = []\<rparr>,
      error = 201, errorString = ''Host requires authentication'', readAll = [],
      document = Some (JObject [(''errors'', JArray
         [JObject [(''code'', JDouble 136), (''message'', JString ''You have been blocked'')]])]),
      contentTypeHeader = None\<rparr>"

definition tweetReply :: QNetworkReply where
  "tweetReply =
     \<lparr>request = \<lparr>url = [], urlQuery = [], rawHeaders = []\<rparr>,
      error = 0, errorString = [], readAll = [],
      document = Some (JObject [(''id_str'', JString ''1234''), (''full_text'', JString ''hello'')]),
      contentTypeHeader = None\<rparr>"

text \<open>A remote side that blocks the primary identity and serves the alternate one.\<close>

definition blockingNetwork :: network where
  "blockingNetwork rq req = (if rq = ''secret'' then tweetReply else blockedReply)"

text \<open>A remote side that blocks both.\<close>

definition hostileNetwork :: network where
  "hostileNetwork rq req = blockedReply"

definition plainApi :: TwitterApi where
  "plainApi = \<lparr>requestor = ''primary'', secretIdentityRequestor = None\<rparr>"

definition markedReply :: QNetworkReply where
  "markedReply = blockedReply\<lparr>request :=
     \<lparr>url = API_STATUSES_SHOW, urlQuery = [(''id'', ''1234'')],
      rawHeaders = [(HEADER_NO_RECURSION, ''X'')]\<rparr>\<rparr>"

definition unmarkedReply :: QNetworkReply where
  "unmarkedReply = blockedReply\<lparr>request :=
     \<lparr>url = API_STATUSES_SHOW, urlQuery = [(''id'', ''1234'')], rawHeaders = []\<rparr>\<rparr>"

text \<open>
  A search result: tweet 1, a reshare of tweet 1, a reshare of tweet 3, tweet 3 itself
  and another reshare of tweet 3.
\<close>

definition exampleStatuses :: "jvalue list" where
  "exampleStatuses =
     [JObject [(''id_str'', JString ''1''), (''full_text'', JString ''first'')],
      JObject [(''id_str'', JString ''5''),
               (''retweeted_status'', JObject [(''id_str'', JString ''1'')])],
      JObject [(''id_str'', JString ''6''),
               (''retweeted_status'', JObject [(''id_str'', JString ''3'')])],
      JObject [(''id_str'', JString ''3''), (''full_text'', JString ''third'')],
      JObject [(''id_str'', JString ''7''),
               (''retweeted_status'', JObject [(''id_str'', JString ''3'')])]]"

definition searchReply :: QNetworkReply where
  "searchReply =
     \<lparr>request = \<lparr>url = API_SEARCH_TWEETS, urlQuery = [(''q'', ''birds'')], rawHeaders = []\<rparr>,
      error = 0, errorString = [], readAll = [],
      document = Some (JObject [(''statuses'', JArray exampleStatuses)]),
      contentTypeHeader = None\<rparr>"

text \<open>Replies to a follow and to an unfollow that echo the state before the action.\<close>

definition followReply :: QNetworkReply where
  "followReply =
     \<lparr>request = \<lparr>url = API_FRIENDSHIPS_CREATE, urlQuery = [], rawHeaders = []\<rparr>,
      error = 0, errorString = [], readAll = [],
      document = Some (JObject [(''screen_name'', JString ''bob''), (''following'', JBool False)]),
      contentTypeHeader = None\<rparr>"

definition unfollowReply :: QNetworkReply where
  "unfollowReply =
     \<lparr>request = \<lparr>url = API_FRIENDSHIPS_DESTROY, urlQuery = [], rawHeaders = []\<rparr>,
      error = 0, errorString = [], readAll = [],
      document = Some (JObject [(''following'', JBool True), (''screen_name'', JString ''bob'')]),
      contentTypeHeader = None\<rparr>"

text \<open>
  Two of Qt's codecs, as far as the model's characters reach. UTF-8 keeps an ASCII byte
  and turns a two-byte sequence that starts with C2 or C3 into its code point (C3 A9
  is U+00E9). ISO-8859-15 keeps every byte as its code point but for the eight where
  it differs from ISO-8859-1. What a codec turns into a code point beyond U+00FF, the
  replacement character of an invalid sequence included, is written \<open>?\<close>; the example
  pages hold no such byte. Qt has no codec of any other name here, among them the
  empty name and \<open>X-NOPE\<close>.
\<close>

fun decodeUtf8 :: "string \<Rightarrow> string" where
  "decodeUtf8 [] = []"
| "decodeUtf8 [b] = [if (of_char b :: nat) < 128 then b else CHR ''?'']"
| "decodeUtf8 (b1 # b2 # bytes) =
     (if (of_char b1 :: nat) < 128 then b1 # decodeUtf8 (b2 # bytes)
      else if (b1 = CHR 0xC2 \<or> b1 = CHR 0xC3)
              \<and> 128 \<le> (of_char b2 :: nat) \<and> (of_char b2 :: nat) < 192
        then char_of ((of_char b1 - 192) * 64 + (of_char b2 - 128) :: nat) # decodeUtf8 bytes
      else CHR ''?'' # decodeUtf8 (b2 # bytes))"

definition decodeLatin9 :: "string \<Rightarrow> string" where
  "decodeLatin9 bytes =
     map (\<lambda>b. if b \<in> set [CHR 0xA4, CHR 0xA6, CHR 0xA8, CHR 0xB4, CHR 0xB8, CHR 0xBC,
                             CHR 0xBD, CHR 0xBE]
               then CHR ''?'' else b) bytes"

definition exampleCodecs :: "string \<Rightarrow> QTextCodec option" where
  "exampleCodecs name =
     (if name = ''UTF-8'' then Some decodeUtf8
      else if name = ''ISO-8859-15'' then Some decodeLatin9
      else None)"

text \<open>
  A page with an \<open>og:url\<close> and an \<open>og:description\<close> tag; the description is \<open>caf\<close> followed
  by the bytes C3 A9, which is an e with acute accent in UTF-8 and two characters in
  ISO-8859-15. The plain page has no tag.
\<close>

definition pageBytes :: string where
  "pageBytes = ''<html><head><meta property='' @ [CHR 0x22] @ ''og:url'' @ [CHR 0x22]
     @ '' content='' @ [CHR 0x22] @ ''https://example.org/canonical'' @ [CHR 0x22] @ ''>''
     @ ''<meta  property='' @ [CHR 0x22] @ ''og:description'' @ [CHR 0x22]
     @ '' content='' @ [CHR 0x22] @ ''caf'' @ [CHR 0xC3, CHR 0xA9] @ [CHR 0x22]
     @ ''/></head></html>''"

definition plainPageBytes :: string where
  "plainPageBytes = ''<html><head><title>No tags</title></head></html>''"

definition pageReply :: "string \<Rightarrow> string \<Rightarrow> QNetworkReply" where
  "pageReply contentType bytes =
     \<lparr>request = \<lparr>url = ''https://example.org/article'', urlQuery = [], rawHeaders = []\<rparr>,
      error = 0, errorString = [], readAll = bytes, document = None,
      contentTypeHeader = Some contentType\<rparr>"

section \<open>Error reports carry the last entry of the errors array\<close>

lemma number_nat_ne_Nil: "number_nat n \<noteq> []"
  by (subst number_nat.simps) simp

lemma lt10_cases: "(d::nat) < 10 \<Longrightarrow> d \<in> {0, 1, 2, 3, 4, 5, 6, 7, 8, 9}"
  by auto

lemma digit_char_eq_iff:
  assumes "a < 10"
  shows "digit_char a = CHR ''1'' \<longleftrightarrow> a = 1"
    and "digit_char a = CHR ''3'' \<longleftrightarrow> a = 3"
    and "digit_char a = CHR ''6'' \<longleftrightarrow> a = 6"
    and "digit_char a \<noteq> CHR ''-''"
  using lt10_cases [OF assms] by (auto simp: digit_char_def)

lemma number_nat_136: "number_nat n = ''136'' \<longleftrightarrow> n = 136"
proof
  assume h: "number_nat n = ''136''"
  have n10: "\<not> n < 10" using h by (subst (asm) number_nat.simps) (auto split: if_splits)
  then have s1: "number_nat (n div 10) @ [digit_char (n mod 10)] = ''13'' @ [CHR ''6'']"
    using h by (subst (asm) number_nat.simps) simp
  then have a: "number_nat (n div 10) = ''13''" and d0: "n mod 10 = 6"
    by (simp_all add: digit_char_eq_iff)
  have n100: "\<not> n div 10 < 10" using a by (subst (asm) number_nat.simps) (auto split: if_splits)
  then have "number_nat (n div 10 div 10) @ [digit_char (n div 10 mod 10)] = ''1'' @ [CHR ''3'']"
    using a by (subst (asm) number_nat.simps) simp
  then have b: "number_nat (n div 10 div 10) = ''1''" and d1: "n div 10 mod 10 = 3"
    by (simp_all add: digit_char_eq_iff)
  have lt: "n div 10 div 10 < 10"
    using b by (subst (asm) number_nat.simps) (auto split: if_splits simp: number_nat_ne_Nil)
  then have d2: "n div 10 div 10 = 1"
    using b by (subst (asm) number_nat.simps) (simp add: digit_char_eq_iff)
  have "n div 10 = n div 10 div 10 * 10 + n div 10 mod 10" by simp
  then have e: "n div 10 = 13" using d1 d2 by simp
  have "n = n div 10 * 10 + n mod 10" by simp
  then show "n = 136" using e d0 by simp
next
  assume "n = 136"
  then show "number_nat n = ''136''" by (simp add: number_nat.simps digit_char_def)
qed

lemma number_nat_no_minus: "hd (number_nat n) \<noteq> CHR ''-''"
proof (induction n rule: number_nat.induct)
  case (1 n)
  show ?case
  proof (cases "n < 10")
    case True
    then show ?thesis by (subst number_nat.simps) (simp add: digit_char_eq_iff)
  next
    case False
    with 1 show ?thesis
      by (subst number_nat.simps) (simp add: number_nat_ne_Nil)
  qed
qed

lemma QString_number_136: "QString_number i = ''136'' \<longleftrightarrow> i = 136"
proof (cases "i < 0")
  case True
  have "hd (number_nat (nat (- i))) \<noteq> CHR ''-''" by (rule number_nat_no_minus)
  then show ?thesis using True by (auto simp: QString_number_def)
next
  case False
  then show ?thesis by (auto simp: QString_number_def number_nat_136)
qed

lemma map_of_parseErrorElement:
  "map_of (parseErrorElement r e) =
     (map_of r)(''code'' \<mapsto> QString_number (toInt (obj_value (toObject e) ''code'')),
                ''message'' \<mapsto> toString (obj_value (toObject e) ''message''))"
  by (simp add: parseErrorElement_def Let_def obj_insert_def update_conv')

lemma map_of_foldl_parseErrorElement:
  assumes "es \<noteq> []"
  shows "map_of (foldl parseErrorElement r es) =
     (map_of r)(''code'' \<mapsto> QString_number (toInt (obj_value (toObject (last es)) ''code'')),
                ''message'' \<mapsto> toString (obj_value (toObject (last es)) ''message''))"
  using assms
proof (induction es rule: rev_induct)
  case Nil
  then show ?case by simp
next
  case (snoc e es)
  show ?case
  proof (cases "es = []")
    case True
    then show ?thesis by (auto simp: map_of_parseErrorElement fun_eq_iff)
  next
    case False
    then show ?thesis
      using snoc.IH by (auto simp: map_of_parseErrorElement fun_eq_iff)
  qed
qed

lemma parseErrorResponse_errors:
  assumes "jsonDocument = Some (JObject obj)" and "obj_value obj ''errors'' = JArray es"
    and "es \<noteq> []"
  shows "map_of (parseErrorResponse errorText jsonDocument) =
     [''message'' \<mapsto> toString (obj_value (toObject (last es)) ''message''),
      ''code'' \<mapsto> QString_number (toInt (obj_value (toObject (last es)) ''code''))]"
  using assms
  by (auto simp: parseErrorResponse_def Let_def isArray_def toArray_def
      map_of_foldl_parseErrorElement obj_insert_def fun_eq_iff)

lemma parseErrorResponse_no_errors:
  assumes "\<not> (\<exists>obj es. jsonDocument = Some (JObject obj) \<and> obj_value obj ''errors'' = JArray es)"
  shows "parseErrorResponse errorText jsonDocument = [(''message'', errorText)]"
  using assms
  by (auto simp: parseErrorResponse_def Let_def isArray_def obj_insert_def
      split: option.splits jvalue.splits)


lemma report_equals_136:
  assumes "document reply = Some (JObject obj)" and "obj_value obj ''errors'' = JArray es"
    and "es \<noteq> []"
  shows "report_equals (parseErrorResponse (errorString reply) (document reply)) ''code'' ''136''
           \<longleftrightarrow> toInt (obj_value (toObject (last es)) ''code'') = 136"
  using parseErrorResponse_errors [OF assms, of "errorString reply"]
  by (simp add: report_equals_def QString_number_136)

text \<open>
  C10. When the error body is a JSON object whose \<open>errors\<close> array has two or more
  entries, the report holds the code and the message of the last entry, so the test
  against \<open>136\<close> in \<^verbatim>\<open>handleShowStatusError\<close> reads the last entry's code alone. When the
  body is not a JSON object with an \<open>errors\<close> array, the report is the transport's error
  string under \<open>message\<close> and has no code.
\<close>

theorem parseErrorResponse_reports_last_error:
  "(\<forall>obj es. document reply = Some (JObject obj) \<and> obj_value obj ''errors'' = JArray es
        \<and> 2 \<le> length es \<longrightarrow>
      (let report = parseErrorResponse (errorString reply) (document reply);
           lastError = toObject (last es)
       in map_of report ''code'' = Some (QString_number (toInt (obj_value lastError ''code'')))
          \<and> map_of report ''message'' = Some (toString (obj_value lastError ''message''))
          \<and> (report_equals report ''code'' ''136'' \<longleftrightarrow> toInt (obj_value lastError ''code'') = 136)
          \<and> handleShowStatusError api reply =
              (if secretIdentityRequestor api \<noteq> None
                  \<and> toInt (obj_value lastError ''code'') = 136
                  \<and> \<not> hasRawHeader (request reply) HEADER_NO_RECURSION
               then showStatus api (queryItemValue (request reply) ''id'') True
               else [Emit (showStatusSuccessful
                       (fakeTweet (queryItemValue (request reply) ''id'')
                          (toString (obj_value lastError ''message''))))])))
   \<and> ((\<nexists>obj es. document reply = Some (JObject obj) \<and> obj_value obj ''errors'' = JArray es) \<longrightarrow>
        parseErrorResponse (errorString reply) (document reply) = [(''message'', errorString reply)]
        \<and> map_of (parseErrorResponse (errorString reply) (document reply)) ''code'' = None)"
proof (intro conjI allI impI)
  fix obj es
  assume h: "document reply = Some (JObject obj) \<and> obj_value obj ''errors'' = JArray es
      \<and> 2 \<le> length es"
  then have d: "document reply = Some (JObject obj)" and e: "obj_value obj ''errors'' = JArray es"
    and ne: "es \<noteq> []" by auto
  have m: "map_of (parseErrorResponse (errorString reply) (document reply)) =
     [''message'' \<mapsto> toString (obj_value (toObject (last es)) ''message''),
      ''code'' \<mapsto> QString_number (toInt (obj_value (toObject (last es)) ''code''))]"
    by (rule parseErrorResponse_errors [OF d e ne])
  have c: "report_equals (parseErrorResponse (errorString reply) (document reply)) ''code'' ''136''
           \<longleftrightarrow> toInt (obj_value (toObject (last es)) ''code'') = 136"
    by (rule report_equals_136 [OF d e ne])
  have t: "report_toString (parseErrorResponse (errorString reply) (document reply)) ''message''
           = toString (obj_value (toObject (last es)) ''message'')"
    by (simp add: report_toString_def m)
  show "let report = parseErrorResponse (errorString reply) (document reply);
           lastError = toObject (last es)
       in map_of report ''code'' = Some (QString_number (toInt (obj_value lastError ''code'')))
          \<and> map_of report ''message'' = Some (toString (obj_value lastError ''message''))
          \<and> (report_equals report ''code'' ''136'' \<longleftrightarrow> toInt (obj_value lastError ''code'') = 136)
          \<and> handleShowStatusError api reply =
              (if secretIdentityRequestor api \<noteq> None
                  \<and> toInt (obj_value lastError ''code'') = 136
                  \<and> \<not> hasRawHeader (request reply) HEADER_NO_RECURSION
               then showStatus api (queryItemValue (request reply) ''id'') True
               else [Emit (showStatusSuccessful
                       (fakeTweet (queryItemValue (request reply) ''id'')
                          (toString (obj_value lastError ''message''))))])"
    unfolding Let_def
  proof (intro conjI)
    show "handleShowStatusError api reply =
            (if secretIdentityRequestor api \<noteq> None
                \<and> toInt (obj_value (toObject (last es)) ''code'') = 136
                \<and> \<not> hasRawHeader (request reply) HEADER_NO_RECURSION
             then showStatus api (queryItemValue (request reply) ''id'') True
             else [Emit (showStatusSuccessful
                     (fakeTweet (queryItemValue (request reply) ''id'')
                        (toString (obj_value (toObject (last es)) ''message''))))])"
      unfolding handleShowStatusError_def Let_def c t by (rule refl)
  qed (simp_all add: m c)
next
  assume "\<nexists>obj es. document reply = Some (JObject obj) \<and> obj_value obj ''errors'' = JArray es"
  then show "parseErrorResponse (errorString reply) (document reply) = [(''message'', errorString reply)]"
    by (rule parseErrorResponse_no_errors)
  then show "map_of (parseErrorResponse (errorString reply) (document reply)) ''code'' = None"
    by simp
qed

text \<open>
  The report for a body with the two errors 34 and 136, and for a reply without a body.
\<close>

theorem parseErrorResponse_reports_last_error_witness:
  "(let reply = \<lparr>request = \<lparr>url = API_STATUSES_SHOW, urlQuery = [(''id'', ''20'')], rawHeaders = []\<rparr>,
                 error = 201, errorString = ''Forbidden'', readAll = [],
                 document = Some (JObject [(''errors'', JArray
                    [JObject [(''code'', JDouble 34), (''message'', JString ''Not found'')],
                     JObject [(''code'', JDouble 136), (''message'', JString ''Blocked'')]])]),
                 contentTypeHeader = None\<rparr>;
        report = parseErrorResponse (errorString reply) (document reply)
    in map_of report ''code'' = Some ''136'' \<and> map_of report ''message'' = Some ''Blocked''
       \<and> report_equals report ''code'' ''136'')
   \<and> (let reply = \<lparr>request = \<lparr>url = API_STATUSES_SHOW, urlQuery = [(''id'', ''20'')], rawHeaders = []\<rparr>,
                 error = 1, errorString = ''Connection refused'', readAll = [],
                 document = None, contentTypeHeader = None\<rparr>
       in parseErrorResponse (errorString reply) (document reply) = [(''message'', ''Connection refused'')])"
proof -
  let ?es = "[JObject [(''code'', JDouble 34), (''message'', JString ''Not found'')],
              JObject [(''code'', JDouble 136), (''message'', JString ''Blocked'')]]"
  let ?obj = "[(''errors'', JArray ?es)]"
  let ?r1 = "\<lparr>request = \<lparr>url = API_STATUSES_SHOW, urlQuery = [(''id'', ''20'')], rawHeaders = []\<rparr>,
                 error = 201, errorString = ''Forbidden'', readAll = [],
                 document = Some (JObject ?obj), contentTypeHeader = None\<rparr>"
  let ?r2 = "\<lparr>request = \<lparr>url = API_STATUSES_SHOW, urlQuery = [(''id'', ''20'')], rawHeaders = []\<rparr>,
                 error = 1, errorString = ''Connection refused'', readAll = [],
                 document = None, contentTypeHeader = None\<rparr>"
  have h1: "document ?r1 = Some (JObject ?obj) \<and> obj_value ?obj ''errors'' = JArray ?es
      \<and> 2 \<le> length ?es"
    by (simp add: obj_value_def)
  have h2: "\<nexists>obj es. document ?r2 = Some (JObject obj) \<and> obj_value obj ''errors'' = JArray es"
    by simp
  have a: "toInt (obj_value (toObject (last ?es)) ''code'') = 136"
    by (simp add: toInt_def obj_value_def toObject_def)
  have b: "toString (obj_value (toObject (last ?es)) ''message'') = ''Blocked''"
    by (simp add: toString_def obj_value_def toObject_def)
  have n: "QString_number 136 = ''136''"
    by (simp add: QString_number_def number_nat.simps digit_char_def)
  note t1 = parseErrorResponse_reports_last_error
    [of ?r1 "\<lparr>requestor = ''main'', secretIdentityRequestor = None\<rparr>",
      THEN conjunct1, rule_format, OF h1]
  note t2 = parseErrorResponse_reports_last_error
    [of ?r2 "\<lparr>requestor = ''main'', secretIdentityRequestor = None\<rparr>",
      THEN conjunct2, rule_format, OF h2]
  show ?thesis
    using t1 t2 unfolding Let_def a b n by simp
qed

section \<open>Searches with an empty query\<close>

text \<open>
  C9. A tweet search or a user search with an empty query starts no exchange: the call
  itself emits the successful signal with an empty list, and that signal is all the
  caller ever sees of the call.
\<close>

theorem empty_search_query_short_circuit:
  "searchTweets api [] = [Emit (searchTweetsSuccessful [])]
   \<and> searchUsers api [] = [Emit (searchUsersSuccessful [])]
   \<and> run api net (searchTweets api []) = [Emit (searchTweetsSuccessful [])]
   \<and> run api net (searchUsers api []) = [Emit (searchUsersSuccessful [])]"
  by (simp add: searchTweets_def searchUsers_def)

section \<open>The identity fallback\<close>

lemma indexOf_negative: "indexOf s c < 0 \<longleftrightarrow> c \<notin> set s"
  by (induction s) (auto simp: Let_def)

lemma indexOf_ge_minus1: "- 1 \<le> indexOf s c"
  by (induction s) (auto simp: Let_def)

lemma indexOf_takeWhile: "c \<in> set s \<Longrightarrow> indexOf s c = int (length (takeWhile (\<lambda>x. x \<noteq> c) s))"
proof (induction s)
  case Nil
  then show ?case by simp
next
  case (Cons x s)
  show ?case
  proof (cases "x = c")
    case True
    then show ?thesis by simp
  next
    case False
    with Cons.prems have "c \<in> set s" by simp
    with Cons.IH False show ?thesis by (simp add: Let_def)
  qed
qed

lemma sanitized_takeWhile:
  "(if indexOf s c \<ge> 0 then left s (indexOf s c) else s) = takeWhile (\<lambda>x. x \<noteq> c) s"
proof (cases "c \<in> set s")
  case True
  then have i: "indexOf s c = int (length (takeWhile (\<lambda>x. x \<noteq> c) s))"
    by (rule indexOf_takeWhile)
  have "length (takeWhile (\<lambda>x. x \<noteq> c) s) < length s"
    using True by (induction s) auto
  then show ?thesis
    unfolding i left_def by (simp add: takeWhile_eq_take [symmetric])
next
  case False
  then have n: "\<not> indexOf s c \<ge> 0" by (simp add: indexOf_negative not_le)
  have t: "takeWhile (\<lambda>x. x \<noteq> c) s = s" using False by (auto simp: takeWhile_eq_all_conv)
  show ?thesis unfolding t using n by simp
qed

lemma sanitized_idem:
  "takeWhile (\<lambda>x. x \<noteq> c) (takeWhile (\<lambda>x. x \<noteq> c) s) = takeWhile (\<lambda>x. x \<noteq> (c::char)) s"
  by (rule takeWhile_idem)

lemma showStatus_eq:
  "showStatus api statusId useSecretIdentity =
     (let ps = [(''tweet_mode'', ''extended''), (''include_entities'', ''true''),
                (''trim_user'', ''false''), (''id'', takeWhile (\<lambda>x. x \<noteq> CHR ''?'') statusId),
                (''include_ext_alt_text'', ''true'')];
          req = \<lparr>url = API_STATUSES_SHOW, urlQuery = ps,
                  rawHeaders = [(''Content-Type'', O2_MIME_TYPE_XFORM)]\<rparr>
      in if useSecretIdentity \<and> secretIdentityRequestor api \<noteq> None
         then [Get (the (secretIdentityRequestor api))
                 (setRawHeader HEADER_NO_RECURSION ''X'' req) ps ShowStatusSlots]
         else [Get (requestor api) req ps ShowStatusSlots])"
  unfolding showStatus_def Let_def sanitized_takeWhile by (rule refl)

lemma hasRawHeader_plain:
  "\<not> hasRawHeader \<lparr>url = u, urlQuery = q, rawHeaders = [(''Content-Type'', O2_MIME_TYPE_XFORM)]\<rparr>
       HEADER_NO_RECURSION"
  by (simp add: hasRawHeader_def HEADER_NO_RECURSION_def)

lemma queryItemValue_setRawHeader [simp]:
  "queryItemValue (setRawHeader n v req) key = queryItemValue req key"
  by (simp add: queryItemValue_def setRawHeader_def)

text \<open>A request that \<open>showStatus\<close> built: its identifier has no question mark.\<close>

lemma urlQuery_setRawHeader [simp]: "urlQuery (setRawHeader n v req) = urlQuery req"
  by (simp add: setRawHeader_def)

lemma showStatus_request:
  assumes "showStatus api statusId useSecretIdentity = [Get rq req ps sl]"
  shows "sl = ShowStatusSlots"
    and "queryItemValue req ''id'' = takeWhile (\<lambda>x. x \<noteq> CHR ''?'') statusId"
    and "hasRawHeader req HEADER_NO_RECURSION \<longleftrightarrow>
           useSecretIdentity \<and> secretIdentityRequestor api \<noteq> None"
    and "\<not> hasRawHeader req HEADER_NO_RECURSION \<Longrightarrow> rq = requestor api"
    and "\<not> hasRawHeader req HEADER_NO_RECURSION \<Longrightarrow>
           showStatus api (queryItemValue req ''id'') True =
             (if secretIdentityRequestor api \<noteq> None
              then [Get (the (secretIdentityRequestor api))
                      (setRawHeader HEADER_NO_RECURSION ''X'' req) ps ShowStatusSlots]
              else [Get (requestor api) req ps ShowStatusSlots])"
  using assms
  by (auto simp: showStatus_eq Let_def queryItemValue_def hasRawHeader_setRawHeader
      hasRawHeader_plain split: if_splits)

lemma finishedSlot_failed: "error reply \<noteq> 0 \<Longrightarrow> finishedSlot sl reply = []"
  by (cases sl)
     (simp_all add: finishedSlot_def handleShowStatusFinished_def handleUserTimelineFinished_def
        handleRetweetTimelineFinished_def handleFollowUserFinished_def
        handleUnfollowUserFinished_def handleSearchTweetsFinished_def
        handleSearchUsersFinished_def)

lemma handleShowStatusFinished_one:
  "error reply = 0 \<Longrightarrow> \<exists>s. handleShowStatusFinished reply = [Emit s]"
  by (simp add: handleShowStatusFinished_def split: option.splits jvalue.splits)

lemma handleUserTimelineFinished_one:
  "error reply = 0 \<Longrightarrow> \<exists>s. handleUserTimelineFinished reply = [Emit s]"
  by (simp add: handleUserTimelineFinished_def split: option.splits jvalue.splits)

lemma handleShowStatusError_placeholder:
  assumes "secretIdentityRequestor api = None \<or> hasRawHeader (request reply) HEADER_NO_RECURSION"
  shows "handleShowStatusError api reply =
     [Emit (showStatusSuccessful
        (fakeTweet (queryItemValue (request reply) ''id'')
           (report_toString (parseErrorResponse (errorString reply) (document reply)) ''message'')))]"
  using assms by (auto simp: handleShowStatusError_def Let_def)

lemma handleUserTimelineError_surfaced:
  assumes "secretIdentityRequestor api = None \<or> hasRawHeader (request reply) HEADER_NO_RECURSION"
  shows "handleUserTimelineError api reply =
     [Emit (userTimelineError
        (report_toString (parseErrorResponse (errorString reply) (document reply)) ''message''))]"
  using assms by (auto simp: handleUserTimelineError_def Let_def)

lemma replyCompleted_showStatus_final:
  assumes "secretIdentityRequestor api = None \<or> hasRawHeader (request reply) HEADER_NO_RECURSION"
  shows "\<exists>s. replyCompleted api ShowStatusSlots reply = [Emit s]"
proof (cases "error reply = 0")
  case True
  then show ?thesis
    using handleShowStatusFinished_one [OF True]
    by (simp add: replyCompleted_def finishedSlot_def)
next
  case False
  then show ?thesis
    using handleShowStatusError_placeholder [OF assms] finishedSlot_failed [OF False]
    by (simp add: replyCompleted_def errorSlot_def)
qed

lemma replyCompleted_userTimeline_final:
  assumes "secretIdentityRequestor api = None \<or> hasRawHeader (request reply) HEADER_NO_RECURSION"
  shows "\<exists>s. replyCompleted api UserTimelineSlots reply = [Emit s]"
proof (cases "error reply = 0")
  case True
  then show ?thesis
    using handleUserTimelineFinished_one [OF True]
    by (simp add: replyCompleted_def finishedSlot_def)
next
  case False
  then show ?thesis
    using handleUserTimelineError_surfaced [OF assms] finishedSlot_failed [OF False]
    by (simp add: replyCompleted_def errorSlot_def)
qed

lemma fakeTweet_fields:
  "obj_value (fakeTweet i t) ''id_str'' = JString i"
  "obj_value (fakeTweet i t) ''full_text'' = JString t"
  "obj_value (fakeTweet i t) ''user'' =
     JObject [(''name'', JString []), (''verified'', JBool False), (''protected'', JBool False),
              (''profile_image_url_https'', JString [])]"
  "obj_value (fakeTweet i t) ''retweeted'' = JBool False"
  "obj_value (fakeTweet i t) ''favorited'' = JBool False"
  "obj_value (fakeTweet i t) ''entities'' =
     JObject [(''hashtags'', JArray []), (''symbols'', JArray []), (''urls'', JArray []),
              (''user_mentions'', JArray [])]"
  by (simp_all add: fakeTweet_def obj_value_def obj_insert_def Let_def)

lemma showStatus_single:
  "\<exists>rq req ps. showStatus api statusId b = [Get rq req ps ShowStatusSlots]
      \<and> (b \<and> secretIdentityRequestor api \<noteq> None \<longrightarrow> hasRawHeader req HEADER_NO_RECURSION)"
  by (auto simp: showStatus_def Let_def hasRawHeader_setRawHeader)

lemma userTimeline_single:
  "\<exists>rq req ps. userTimeline api screenName b = [Get rq req ps UserTimelineSlots]
      \<and> (b \<and> secretIdentityRequestor api \<noteq> None \<longrightarrow> hasRawHeader req HEADER_NO_RECURSION)"
  by (auto simp: userTimeline_def Let_def hasRawHeader_setRawHeader)

lemma replyCompleted_showStatus_shape:
  "(\<exists>s. replyCompleted api ShowStatusSlots reply = [Emit s])
   \<or> (secretIdentityRequestor api \<noteq> None
       \<and> replyCompleted api ShowStatusSlots reply =
           showStatus api (queryItemValue (request reply) ''id'') True)"
proof (cases "secretIdentityRequestor api = None \<or> hasRawHeader (request reply) HEADER_NO_RECURSION")
  case True
  then show ?thesis using replyCompleted_showStatus_final by blast
next
  case unmarked: False
  show ?thesis
  proof (cases "error reply = 0")
    case True
    then show ?thesis
      using handleShowStatusFinished_one [OF True]
      by (simp add: replyCompleted_def finishedSlot_def)
  next
    case False
    then show ?thesis
      using unmarked finishedSlot_failed [OF False]
      by (simp add: replyCompleted_def errorSlot_def handleShowStatusError_def Let_def)
  qed
qed

lemma replyCompleted_userTimeline_shape:
  "(\<exists>s. replyCompleted api UserTimelineSlots reply = [Emit s])
   \<or> (secretIdentityRequestor api \<noteq> None
       \<and> replyCompleted api UserTimelineSlots reply =
           userTimeline api (queryItemValue (request reply) ''screen_name'') True)"
proof (cases "secretIdentityRequestor api = None \<or> hasRawHeader (request reply) HEADER_NO_RECURSION")
  case True
  then show ?thesis using replyCompleted_userTimeline_final by blast
next
  case unmarked: False
  show ?thesis
  proof (cases "error reply = 0")
    case True
    then show ?thesis
      using handleUserTimelineFinished_one [OF True]
      by (simp add: replyCompleted_def finishedSlot_def)
  next
    case False
    then show ?thesis
      using unmarked finishedSlot_failed [OF False]
      by (simp add: replyCompleted_def errorSlot_def handleUserTimelineError_def Let_def)
  qed
qed

lemma run_marked_showStatus:
  assumes "secretIdentityRequestor api = None \<or> hasRawHeader req HEADER_NO_RECURSION"
  shows "\<exists>s. run api net [Get rq req ps ShowStatusSlots] = [Get rq req ps ShowStatusSlots, Emit s]"
proof -
  from assms have "secretIdentityRequestor api = None
      \<or> hasRawHeader (request (answer net rq req)) HEADER_NO_RECURSION"
    by (simp add: request_answer)
  from replyCompleted_showStatus_final [OF this]
  obtain s where "replyCompleted api ShowStatusSlots (answer net rq req) = [Emit s]" ..
  then show ?thesis by simp
qed

lemma run_marked_userTimeline:
  assumes "secretIdentityRequestor api = None \<or> hasRawHeader req HEADER_NO_RECURSION"
  shows "\<exists>s. run api net [Get rq req ps UserTimelineSlots] = [Get rq req ps UserTimelineSlots, Emit s]"
proof -
  from assms have "secretIdentityRequestor api = None
      \<or> hasRawHeader (request (answer net rq req)) HEADER_NO_RECURSION"
    by (simp add: request_answer)
  from replyCompleted_userTimeline_final [OF this]
  obtain s where "replyCompleted api UserTimelineSlots (answer net rq req) = [Emit s]" ..
  then show ?thesis by simp
qed

lemma run_showStatus_shape:
  "\<exists>a b c s. run api net (showStatus api statusId useSecretIdentity) = [a, Emit s]
      \<or> run api net (showStatus api statusId useSecretIdentity) = [a, b, Emit s]"
proof -
  obtain rq req ps where first: "showStatus api statusId useSecretIdentity = [Get rq req ps ShowStatusSlots]"
    using showStatus_single by blast
  let ?reply = "answer net rq req"
  from replyCompleted_showStatus_shape [of api ?reply]
  show ?thesis
  proof
    assume "\<exists>s. replyCompleted api ShowStatusSlots ?reply = [Emit s]"
    then obtain s where "replyCompleted api ShowStatusSlots ?reply = [Emit s]" ..
    then have "run api net (showStatus api statusId useSecretIdentity) = [Get rq req ps ShowStatusSlots, Emit s]"
      by (simp add: first)
    then show ?thesis by blast
  next
    assume again: "secretIdentityRequestor api \<noteq> None
       \<and> replyCompleted api ShowStatusSlots ?reply =
           showStatus api (queryItemValue (request ?reply) ''id'') True"
    obtain rq' req' ps' where
      second: "showStatus api (queryItemValue (request ?reply) ''id'') True = [Get rq' req' ps' ShowStatusSlots]"
      and marked: "hasRawHeader req' HEADER_NO_RECURSION"
      using showStatus_single [of api "queryItemValue (request ?reply) ''id''" True] again by blast
    obtain s where "run api net [Get rq' req' ps' ShowStatusSlots] = [Get rq' req' ps' ShowStatusSlots, Emit s]"
      using run_marked_showStatus [of api req' net rq' ps'] marked by blast
    then have "run api net (showStatus api statusId useSecretIdentity)
        = [Get rq req ps ShowStatusSlots, Get rq' req' ps' ShowStatusSlots, Emit s]"
      using again by (simp add: first second)
    then show ?thesis by blast
  qed
qed

lemma run_userTimeline_shape:
  "\<exists>a b c s. run api net (userTimeline api screenName useSecretIdentity) = [a, Emit s]
      \<or> run api net (userTimeline api screenName useSecretIdentity) = [a, b, Emit s]"
proof -
  obtain rq req ps where first: "userTimeline api screenName useSecretIdentity = [Get rq req ps UserTimelineSlots]"
    using userTimeline_single by blast
  let ?reply = "answer net rq req"
  from replyCompleted_userTimeline_shape [of api ?reply]
  show ?thesis
  proof
    assume "\<exists>s. replyCompleted api UserTimelineSlots ?reply = [Emit s]"
    then obtain s where "replyCompleted api UserTimelineSlots ?reply = [Emit s]" ..
    then have "run api net (userTimeline api screenName useSecretIdentity) = [Get rq req ps UserTimelineSlots, Emit s]"
      by (simp add: first)
    then show ?thesis by blast
  next
    assume again: "secretIdentityRequestor api \<noteq> None
       \<and> replyCompleted api UserTimelineSlots ?reply =
           userTimeline api (queryItemValue (request ?reply) ''screen_name'') True"
    obtain rq' req' ps' where
      second: "userTimeline api (queryItemValue (request ?reply) ''screen_name'') True = [Get rq' req' ps' UserTimelineSlots]"
      and marked: "hasRawHeader req' HEADER_NO_RECURSION"
      using userTimeline_single [of api "queryItemValue (request ?reply) ''screen_name''" True] again by blast
    obtain s where "run api net [Get rq' req' ps' UserTimelineSlots] = [Get rq' req' ps' UserTimelineSlots, Emit s]"
      using run_marked_userTimeline [of api req' net rq' ps'] marked by blast
    then have "run api net (userTimeline api screenName useSecretIdentity)
        = [Get rq req ps UserTimelineSlots, Get rq' req' ps' UserTimelineSlots, Emit s]"
      using again by (simp add: first second)
    then show ?thesis by blast
  qed
qed

lemma exchanges_bound:
  assumes "\<exists>a b c s. tr = [a, Emit s] \<or> tr = [a, b, Emit s]"
  shows "length (exchanges tr) \<le> 2" and "length (signals tr) \<ge> 1"
  using assms by (auto simp: exchanges_def signals_def split: action.splits)

lemma blockedReply_report:
  "parseErrorResponse (errorString blockedReply) (document blockedReply)
     = [(''message'', ''You have been blocked''), (''code'', ''136'')]"
  by (simp add: blockedReply_def parseErrorResponse_def parseErrorElement_def Let_def
      obj_value_def isArray_def toArray_def toObject_def toInt_def toString_def obj_insert_def
      QString_number_def number_nat.simps digit_char_def)

text \<open>
  C1. A single-message fetch that \<open>showStatus\<close> started without the no-recursion header
  fails with error code 136 while the alternate identity is configured. Then exactly
  one more exchange is started: the same request (same URL and query, so the same
  message identifier) with the no-recursion header, sent through the alternate
  requestor. The failure itself emits nothing; the run ends with exactly one signal,
  the one that the retried exchange's reply produces.
\<close>

theorem blocked_showStatus_retried_once:
  assumes "secretIdentityRequestor api = Some secret"
    and "showStatus api statusId useSecretIdentity = [Get rq req ps sl]"
    and "\<not> hasRawHeader req HEADER_NO_RECURSION"
    and "error (net rq req) \<noteq> 0"
    and "report_equals (parseErrorResponse (errorString (net rq req)) (document (net rq req)))
           ''code'' ''136''"
  shows "let retry = setRawHeader HEADER_NO_RECURSION ''X'' req;
             outcome = replyCompleted api ShowStatusSlots (answer net secret retry);
             trace = run api net (showStatus api statusId useSecretIdentity)
         in trace = [Get rq req ps sl, Get secret retry ps ShowStatusSlots] @ outcome
            \<and> (\<exists>s. outcome = [Emit s])
            \<and> exchanges trace = [Get rq req ps sl, Get secret retry ps ShowStatusSlots]
            \<and> signals trace = signals outcome
            \<and> length (signals trace) = 1
            \<and> hasRawHeader retry HEADER_NO_RECURSION
            \<and> queryItemValue retry ''id'' = queryItemValue req ''id''
            \<and> url retry = url req \<and> urlQuery retry = urlQuery req"
proof -
  let ?retry = "setRawHeader HEADER_NO_RECURSION ''X'' req"
  let ?outcome = "replyCompleted api ShowStatusSlots (answer net secret ?retry)"
  have sl: "sl = ShowStatusSlots"
    by (rule showStatus_request(1) [OF assms(2)])
  have again: "showStatus api (queryItemValue req ''id'') True = [Get secret ?retry ps ShowStatusSlots]"
    using showStatus_request(5) [OF assms(2) assms(3)] assms(1) by simp
  have failed: "error (answer net rq req) \<noteq> 0"
    using assms(4) by (simp add: answer_def)
  have "errorSlot api ShowStatusSlots (answer net rq req) = [Get secret ?retry ps ShowStatusSlots]"
    using assms(1,3,5) again
    by (simp add: errorSlot_def handleShowStatusError_def Let_def answer_def)
  then have first: "replyCompleted api sl (answer net rq req) = [Get secret ?retry ps ShowStatusSlots]"
    using failed finishedSlot_failed [OF failed] by (simp add: replyCompleted_def sl)
  have marked: "hasRawHeader ?retry HEADER_NO_RECURSION"
    by (rule hasRawHeader_setRawHeader)
  then have "hasRawHeader (request (answer net secret ?retry)) HEADER_NO_RECURSION"
    by (simp add: request_answer)
  then obtain s where out: "?outcome = [Emit s]"
    using replyCompleted_showStatus_final [of api "answer net secret ?retry"] by blast
  have tr: "run api net (showStatus api statusId useSecretIdentity)
      = [Get rq req ps sl, Get secret ?retry ps ShowStatusSlots] @ ?outcome"
    by (simp add: assms(2) first out)
  have same: "url ?retry = url req" "urlQuery ?retry = urlQuery req"
    by (simp_all add: setRawHeader_def)
  show ?thesis
    unfolding Let_def tr out using marked same
    by (simp add: exchanges_def signals_def)
qed

text \<open>
  The primary identity is blocked for tweet 1234 and the alternate one is served: the
  caller sees the tweet and nothing else, after two exchanges.
\<close>

theorem blocked_showStatus_retried_once_witness:
  "secretIdentityRequestor exampleApi = Some ''secret''
   \<and> error (blockingNetwork ''primary''
        \<lparr>url = API_STATUSES_SHOW,
         urlQuery = [(''tweet_mode'', ''extended''), (''include_entities'', ''true''),
                     (''trim_user'', ''false''), (''id'', ''1234''),
                     (''include_ext_alt_text'', ''true'')],
         rawHeaders = [(''Content-Type'', O2_MIME_TYPE_XFORM)]\<rparr>) = 201
   \<and> signals (run exampleApi blockingNetwork (showStatus exampleApi ''1234?s=20'' False))
        = [showStatusSuccessful [(''id_str'', JString ''1234''), (''full_text'', JString ''hello'')]]
   \<and> length (exchanges (run exampleApi blockingNetwork (showStatus exampleApi ''1234?s=20'' False))) = 2"
proof -
  let ?ps = "[(''tweet_mode'', ''extended''), (''include_entities'', ''true''),
              (''trim_user'', ''false''), (''id'', ''1234''), (''include_ext_alt_text'', ''true'')]"
  let ?req = "\<lparr>url = API_STATUSES_SHOW, urlQuery = ?ps,
               rawHeaders = [(''Content-Type'', O2_MIME_TYPE_XFORM)]\<rparr>"
  have h1: "secretIdentityRequestor exampleApi = Some ''secret''"
    by (simp add: exampleApi_def)
  have h2: "showStatus exampleApi ''1234?s=20'' False = [Get ''primary'' ?req ?ps ShowStatusSlots]"
    by (simp add: showStatus_eq exampleApi_def Let_def)
  have h3: "\<not> hasRawHeader ?req HEADER_NO_RECURSION"
    by (rule hasRawHeader_plain)
  have h4: "error (blockingNetwork ''primary'' ?req) \<noteq> 0"
    by (simp add: blockingNetwork_def blockedReply_def)
  have h5: "report_equals (parseErrorResponse (errorString (blockingNetwork ''primary'' ?req))
              (document (blockingNetwork ''primary'' ?req))) ''code'' ''136''"
    by (simp add: blockingNetwork_def blockedReply_report report_equals_def)
  have out: "replyCompleted exampleApi ShowStatusSlots
      (answer blockingNetwork ''secret'' (setRawHeader HEADER_NO_RECURSION ''X'' ?req))
      = [Emit (showStatusSuccessful [(''id_str'', JString ''1234''), (''full_text'', JString ''hello'')])]"
    by (simp add: replyCompleted_def finishedSlot_def handleShowStatusFinished_def answer_def
        blockingNetwork_def tweetReply_def)
  have e: "error (blockingNetwork ''primary'' ?req) = 201"
    by (simp add: blockingNetwork_def blockedReply_def)
  note t = blocked_showStatus_retried_once [where net = blockingNetwork, OF h1 h2 h3 h4 h5,
      unfolded Let_def out]
  have s: "signals (run exampleApi blockingNetwork (showStatus exampleApi ''1234?s=20'' False))
      = [showStatusSuccessful [(''id_str'', JString ''1234''), (''full_text'', JString ''hello'')]]"
    using t by (simp add: signals_def)
  have x: "length (exchanges (run exampleApi blockingNetwork (showStatus exampleApi ''1234?s=20'' False))) = 2"
    using t by (simp add: exchanges_def)
  show ?thesis
    using h1 e s x by simp
qed

lemma markedReply_simps:
  "hasRawHeader (request markedReply) HEADER_NO_RECURSION"
  "queryItemValue (request markedReply) ''id'' = ''1234''"
  "error markedReply = 201"
  "report_toString (parseErrorResponse (errorString markedReply) (document markedReply)) ''message''
     = ''You have been blocked''"
  using blockedReply_report
  by (simp_all add: markedReply_def hasRawHeader_def queryItemValue_def report_toString_def
      blockedReply_def)

lemma unmarkedReply_simps:
  "\<not> hasRawHeader (request unmarkedReply) HEADER_NO_RECURSION"
  "queryItemValue (request unmarkedReply) ''id'' = ''1234''"
  "error unmarkedReply = 201"
  "report_toString (parseErrorResponse (errorString unmarkedReply) (document unmarkedReply)) ''message''
     = ''You have been blocked''"
  using blockedReply_report
  by (simp_all add: unmarkedReply_def hasRawHeader_def queryItemValue_def report_toString_def
      blockedReply_def)

text \<open>
  C2. A reply whose request carries the no-recursion header never starts another
  exchange when it fails: \<open>handleShowStatusError\<close> emits the placeholder,
  \<open>handleUserTimelineError\<close> emits the error message, and nothing that follows starts
  an exchange. A call of \<open>showStatus\<close> or \<open>userTimeline\<close> therefore never causes more than
  two exchanges, whatever the replies are.
\<close>

theorem fallback_failure_not_retried:
  assumes "hasRawHeader (request reply) HEADER_NO_RECURSION"
  shows "handleShowStatusError api reply =
           [Emit (showStatusSuccessful
              (fakeTweet (queryItemValue (request reply) ''id'')
                 (report_toString (parseErrorResponse (errorString reply) (document reply)) ''message'')))]
       \<and> handleUserTimelineError api reply =
           [Emit (userTimelineError
              (report_toString (parseErrorResponse (errorString reply) (document reply)) ''message''))]
       \<and> exchanges (run api net (replyCompleted api ShowStatusSlots reply)) = []
       \<and> exchanges (run api net (replyCompleted api UserTimelineSlots reply)) = []
       \<and> length (exchanges (run api net (showStatus api statusId useSecretIdentity))) \<le> 2
       \<and> length (exchanges (run api net (userTimeline api screenName useSecretIdentity))) \<le> 2"
proof (intro conjI)
  have m: "secretIdentityRequestor api = None \<or> hasRawHeader (request reply) HEADER_NO_RECURSION"
    using assms by simp
  show "handleShowStatusError api reply =
           [Emit (showStatusSuccessful
              (fakeTweet (queryItemValue (request reply) ''id'')
                 (report_toString (parseErrorResponse (errorString reply) (document reply)) ''message'')))]"
    by (rule handleShowStatusError_placeholder [OF m])
  show "handleUserTimelineError api reply =
           [Emit (userTimelineError
              (report_toString (parseErrorResponse (errorString reply) (document reply)) ''message''))]"
    by (rule handleUserTimelineError_surfaced [OF m])
  obtain s where "replyCompleted api ShowStatusSlots reply = [Emit s]"
    using replyCompleted_showStatus_final [OF m] ..
  then show "exchanges (run api net (replyCompleted api ShowStatusSlots reply)) = []"
    by (simp add: exchanges_def)
  obtain s' where "replyCompleted api UserTimelineSlots reply = [Emit s']"
    using replyCompleted_userTimeline_final [OF m] ..
  then show "exchanges (run api net (replyCompleted api UserTimelineSlots reply)) = []"
    by (simp add: exchanges_def)
  show "length (exchanges (run api net (showStatus api statusId useSecretIdentity))) \<le> 2"
    by (rule exchanges_bound(1) [OF run_showStatus_shape])
  show "length (exchanges (run api net (userTimeline api screenName useSecretIdentity))) \<le> 2"
    by (rule exchanges_bound(1) [OF run_userTimeline_shape])
qed

text \<open>
  Both identities are blocked: the failure of the marked exchange, itself error 136 with
  the alternate identity configured, ends in the placeholder, and that placeholder is the
  only signal of the whole run.
\<close>

theorem fallback_failure_not_retried_witness:
  "hasRawHeader (request markedReply) HEADER_NO_RECURSION
   \<and> secretIdentityRequestor exampleApi = Some ''secret''
   \<and> report_equals (parseErrorResponse (errorString markedReply) (document markedReply)) ''code'' ''136''
   \<and> handleShowStatusError exampleApi markedReply =
        [Emit (showStatusSuccessful (fakeTweet ''1234'' ''You have been blocked''))]
   \<and> handleUserTimelineError exampleApi markedReply =
        [Emit (userTimelineError ''You have been blocked'')]
   \<and> exchanges (run exampleApi hostileNetwork (replyCompleted exampleApi ShowStatusSlots markedReply)) = []
   \<and> length (exchanges (run exampleApi hostileNetwork (showStatus exampleApi ''1234'' False))) \<le> 2
   \<and> signals (run exampleApi hostileNetwork (showStatus exampleApi ''1234'' False))
        = [showStatusSuccessful (fakeTweet ''1234'' ''You have been blocked'')]"
proof -
  have c: "report_equals (parseErrorResponse (errorString markedReply) (document markedReply)) ''code'' ''136''"
    using blockedReply_report by (simp add: markedReply_def report_equals_def blockedReply_def)
  have e: "error blockedReply \<noteq> 0" by (simp add: blockedReply_def)
  have b: "report_equals (parseErrorResponse (errorString blockedReply) (document blockedReply))
             ''code'' ''136''"
    "report_toString (parseErrorResponse (errorString blockedReply) (document blockedReply))
       ''message'' = ''You have been blocked''"
    by (simp_all add: blockedReply_report report_equals_def report_toString_def)
  have both: "signals (run exampleApi hostileNetwork (showStatus exampleApi ''1234'' False))
        = [showStatusSuccessful (fakeTweet ''1234'' ''You have been blocked'')]"
    using e b
    by (simp add: showStatus_eq exampleApi_def Let_def replyCompleted_def errorSlot_def
        finishedSlot_def handleShowStatusError_def handleShowStatusFinished_def answer_def
        hostileNetwork_def hasRawHeader_plain hasRawHeader_setRawHeader queryItemValue_def
        signals_def)
  show ?thesis
    using fallback_failure_not_retried
      [where reply = markedReply and api = exampleApi and net = hostileNetwork
         and statusId = "''1234''" and useSecretIdentity = False, OF markedReply_simps(1)]
      c both
    by (simp add: markedReply_simps exampleApi_def)
qed

text \<open>
  C3. A single-message fetch fails while the alternate identity is not configured, or
  its request carries the no-recursion header. Then the only thing its reply causes is
  the signal \<open>showStatusSuccessful\<close> with the placeholder: \<open>id_str\<close> is the identifier of
  the request, \<open>full_text\<close> is the message of the error report, the author block has
  empty names and false flags, \<open>retweeted\<close> and \<open>favorited\<close> are false and the entity
  lists are empty. No error signal is emitted.
\<close>

theorem showStatus_failure_placeholder:
  assumes "error reply \<noteq> 0"
    and "secretIdentityRequestor api = None \<or> hasRawHeader (request reply) HEADER_NO_RECURSION"
  shows "let message = report_toString
               (parseErrorResponse (errorString reply) (document reply)) ''message'';
             placeholder = fakeTweet (queryItemValue (request reply) ''id'') message
         in replyCompleted api ShowStatusSlots reply = [Emit (showStatusSuccessful placeholder)]
            \<and> run api net (replyCompleted api ShowStatusSlots reply)
                 = [Emit (showStatusSuccessful placeholder)]
            \<and> obj_value placeholder ''id_str'' = JString (queryItemValue (request reply) ''id'')
            \<and> obj_value placeholder ''full_text'' = JString message
            \<and> obj_value placeholder ''user'' =
                 JObject [(''name'', JString []), (''verified'', JBool False),
                          (''protected'', JBool False), (''profile_image_url_https'', JString [])]
            \<and> obj_value placeholder ''retweeted'' = JBool False
            \<and> obj_value placeholder ''favorited'' = JBool False
            \<and> obj_value placeholder ''entities'' =
                 JObject [(''hashtags'', JArray []), (''symbols'', JArray []), (''urls'', JArray []),
                          (''user_mentions'', JArray [])]"
proof -
  have "replyCompleted api ShowStatusSlots reply =
      [Emit (showStatusSuccessful (fakeTweet (queryItemValue (request reply) ''id'')
         (report_toString (parseErrorResponse (errorString reply) (document reply)) ''message'')))]"
    using handleShowStatusError_placeholder [OF assms(2)] finishedSlot_failed [OF assms(1)] assms(1)
    by (simp add: replyCompleted_def errorSlot_def)
  then show ?thesis
    unfolding Let_def by (simp add: fakeTweet_fields)
qed

text \<open>
  The blocked reply without an alternate identity, and the blocked reply to a marked
  request, both end in the placeholder for tweet 1234.
\<close>

theorem showStatus_failure_placeholder_witness:
  "error unmarkedReply \<noteq> 0 \<and> secretIdentityRequestor plainApi = None
   \<and> replyCompleted plainApi ShowStatusSlots unmarkedReply
        = [Emit (showStatusSuccessful (fakeTweet ''1234'' ''You have been blocked''))]
   \<and> error markedReply \<noteq> 0 \<and> hasRawHeader (request markedReply) HEADER_NO_RECURSION
   \<and> replyCompleted exampleApi ShowStatusSlots markedReply
        = [Emit (showStatusSuccessful (fakeTweet ''1234'' ''You have been blocked''))]
   \<and> obj_value (fakeTweet ''1234'' ''You have been blocked'') ''full_text''
        = JString ''You have been blocked''"
proof -
  have a1: "error unmarkedReply \<noteq> 0" by (simp add: unmarkedReply_simps)
  have a2: "secretIdentityRequestor plainApi = None
      \<or> hasRawHeader (request unmarkedReply) HEADER_NO_RECURSION"
    by (simp add: plainApi_def)
  have b1: "error markedReply \<noteq> 0" by (simp add: markedReply_simps)
  have b2: "secretIdentityRequestor exampleApi = None
      \<or> hasRawHeader (request markedReply) HEADER_NO_RECURSION"
    by (simp add: markedReply_simps)
  note t1 = showStatus_failure_placeholder [where net = hostileNetwork, OF a1 a2, unfolded Let_def]
  note t2 = showStatus_failure_placeholder [where net = hostileNetwork, OF b1 b2, unfolded Let_def]
  show ?thesis
    using t1 t2 a1 b1
    by (simp add: markedReply_simps unmarkedReply_simps plainApi_def)
qed

section \<open>Search de-duplication\<close>

lemma firstOfEachStatusId_Nil [simp]: "firstOfEachStatusId key [] = []"
  by (simp add: firstOfEachStatusId_def)

lemma firstOfEachStatusId_snoc:
  "firstOfEachStatusId key (xs @ [x]) =
     firstOfEachStatusId key xs @ (if key x \<in> set (map key xs) then [] else [x])"
proof -
  let ?P = "\<lambda>ys i. key (ys ! i) \<notin> set (map key (take i ys))"
  have old: "filter (?P (xs @ [x])) [0..<length xs] = filter (?P xs) [0..<length xs]"
    by (rule filter_cong) (auto simp: nth_append)
  have "map (\<lambda>i. (xs @ [x]) ! i) (filter (?P (xs @ [x])) [0..<length xs])
      = map (\<lambda>i. xs ! i) (filter (?P xs) [0..<length xs])"
    unfolding old by (rule map_cong) (auto simp: nth_append)
  then show ?thesis
    by (simp add: firstOfEachStatusId_def)
qed

lemma set_firstOfEachStatusId: "set (map key (firstOfEachStatusId key xs)) = set (map key xs)"
  by (induction xs rule: rev_induct) (auto simp: firstOfEachStatusId_snoc)

lemma distinct_firstOfEachStatusId: "distinct (map key (firstOfEachStatusId key xs))"
proof (induction xs rule: rev_induct)
  case Nil
  then show ?case by simp
next
  case (snoc x xs)
  have "key x \<notin> set (map key xs) \<Longrightarrow> key x \<notin> set (map key (firstOfEachStatusId key xs))"
    using set_firstOfEachStatusId [of key xs] by simp
  with snoc show ?case
    by (auto simp: firstOfEachStatusId_snoc)
qed

lemma dedupStep_foldl:
  "foldl dedupStep ([], []) entries =
     (map currentStatusId (firstOfEachStatusId currentStatusId (map toObject entries)),
      firstOfEachStatusId currentStatusId (map toObject entries))"
proof (induction entries rule: rev_induct)
  case Nil
  then show ?case by simp
next
  case (snoc e entries)
  have "set (map currentStatusId (firstOfEachStatusId currentStatusId (map toObject entries)))
      = set (map currentStatusId (map toObject entries))"
    by (rule set_firstOfEachStatusId)
  then show ?case
    using snoc by (auto simp: dedupStep_def Let_def firstOfEachStatusId_snoc)
qed

lemma dedupStatuses_eq:
  "dedupStatuses entries = firstOfEachStatusId currentStatusId (map toObject entries)"
  by (simp add: dedupStatuses_def dedupStep_foldl)

lemma map_JObject_toObject:
  "(\<forall>e \<in> set entries. e = JObject (toObject e)) \<Longrightarrow> map (JObject \<circ> toObject) entries = entries"
  by (induction entries) auto

lemma firstOfEachStatusId_map:
  "firstOfEachStatusId key (map f xs) = map f (firstOfEachStatusId (key \<circ> f) xs)"
  by (induction xs rule: rev_induct) (auto simp: firstOfEachStatusId_snoc)

lemma set_firstOfEachStatusId_subset: "set (firstOfEachStatusId key xs) \<subseteq> set xs"
  by (induction xs rule: rev_induct) (auto simp: firstOfEachStatusId_snoc)

text \<open>
  C4. The list that a tweet search emits holds exactly one entry per underlying message
  identifier (the \<open>id_str\<close> of \<open>retweeted_status\<close> for a reshare, the entry's own \<open>id_str\<close>
  otherwise): the identifiers of the output are distinct and are those of the input;
  the entry kept for an identifier is the first one in response order, every later one
  is dropped, and the kept entries stay in response order. The slot reads every entry
  as an object, so the entries of a result made of objects are emitted as they are.
\<close>

theorem searchTweets_deduplicated:
  "(let objs = map toObject entries; out = dedupStatuses entries
    in out = firstOfEachStatusId currentStatusId objs
       \<and> distinct (map currentStatusId out)
       \<and> set (map currentStatusId out) = set (map currentStatusId objs))
   \<and> ((\<forall>e \<in> set entries. e = JObject (toObject e)) \<longrightarrow>
         map JObject (dedupStatuses entries)
           = firstOfEachStatusId (currentStatusId \<circ> toObject) entries)
   \<and> (\<forall>obj. error reply = 0 \<and> document reply = Some (JObject obj) \<longrightarrow>
         handleSearchTweetsFinished reply =
           [Emit (searchTweetsSuccessful
              (map JObject (dedupStatuses (toArray (obj_value obj ''statuses'')))))])"
proof (intro conjI allI impI)
  show "let objs = map toObject entries; out = dedupStatuses entries
    in out = firstOfEachStatusId currentStatusId objs
       \<and> distinct (map currentStatusId out)
       \<and> set (map currentStatusId out) = set (map currentStatusId objs)"
    unfolding Let_def dedupStatuses_eq
    using distinct_firstOfEachStatusId [of currentStatusId "map toObject entries"]
      set_firstOfEachStatusId [of currentStatusId "map toObject entries"]
    by simp
next
  assume objects: "\<forall>e \<in> set entries. e = JObject (toObject e)"
  let ?kept = "firstOfEachStatusId (currentStatusId \<circ> toObject) entries"
  have "\<forall>e \<in> set ?kept. e = JObject (toObject e)"
    using objects set_firstOfEachStatusId_subset [of "currentStatusId \<circ> toObject" entries]
    by blast
  then have "map (JObject \<circ> toObject) ?kept = ?kept"
    by (rule map_JObject_toObject)
  then show "map JObject (dedupStatuses entries) = ?kept"
    by (simp add: dedupStatuses_eq firstOfEachStatusId_map)
next
  fix obj
  assume "error reply = 0 \<and> document reply = Some (JObject obj)"
  then show "handleSearchTweetsFinished reply =
           [Emit (searchTweetsSuccessful
              (map JObject (dedupStatuses (toArray (obj_value obj ''statuses'')))))]"
    by (simp add: handleSearchTweetsFinished_def Let_def)
qed

text \<open>
  In the example the tweet 1 and the first reshare of tweet 3 are kept; the reshare of
  tweet 1, tweet 3 itself and its second reshare are dropped.
\<close>

theorem searchTweets_deduplicated_witness:
  "map (JObject \<circ> toObject) exampleStatuses = exampleStatuses
   \<and> error searchReply = 0
   \<and> handleSearchTweetsFinished searchReply =
       [Emit (searchTweetsSuccessful
          [JObject [(''id_str'', JString ''1''), (''full_text'', JString ''first'')],
           JObject [(''id_str'', JString ''6''),
                    (''retweeted_status'', JObject [(''id_str'', JString ''3'')])]])]
   \<and> map currentStatusId (dedupStatuses exampleStatuses) = [''1'', ''3'']"
proof -
  have h1: "\<forall>e \<in> set exampleStatuses. e = JObject (toObject e)"
    by (simp add: exampleStatuses_def toObject_def)
  have h2: "error searchReply = 0 \<and>
      document searchReply = Some (JObject [(''statuses'', JArray exampleStatuses)])"
    by (simp add: searchReply_def)
  have st: "toArray (obj_value [(''statuses'', JArray exampleStatuses)] ''statuses'') = exampleStatuses"
    by (simp add: toArray_def obj_value_def)
  have kept: "firstOfEachStatusId (currentStatusId \<circ> toObject) exampleStatuses =
          [JObject [(''id_str'', JString ''1''), (''full_text'', JString ''first'')],
           JObject [(''id_str'', JString ''6''),
                    (''retweeted_status'', JObject [(''id_str'', JString ''3'')])]]"
    by (simp add: firstOfEachStatusId_def exampleStatuses_def currentStatusId_def toObject_def
        obj_contains_def obj_value_def toString_def upt_rec)
  note t = searchTweets_deduplicated [of exampleStatuses searchReply]
  have a: "map JObject (dedupStatuses exampleStatuses) =
          [JObject [(''id_str'', JString ''1''), (''full_text'', JString ''first'')],
           JObject [(''id_str'', JString ''6''),
                    (''retweeted_status'', JObject [(''id_str'', JString ''3'')])]]"
    using t [THEN conjunct2, THEN conjunct1, THEN mp, OF h1] kept by simp
  have b: "handleSearchTweetsFinished searchReply =
      [Emit (searchTweetsSuccessful (map JObject (dedupStatuses exampleStatuses)))]"
    using t [THEN conjunct2, THEN conjunct2, rule_format, OF h2] st by simp
  have "dedupStatuses exampleStatuses =
          [[(''id_str'', JString ''1''), (''full_text'', JString ''first'')],
           [(''id_str'', JString ''6''),
                    (''retweeted_status'', JObject [(''id_str'', JString ''3'')])]]"
    using a by (simp add: map_eq_Cons_conv)
  then have c: "map currentStatusId (dedupStatuses exampleStatuses) = [''1'', ''3'']"
    by (simp add: currentStatusId_def obj_contains_def obj_value_def toObject_def toString_def)
  have d: "map (JObject \<circ> toObject) exampleStatuses = exampleStatuses"
    by (rule map_JObject_toObject [OF h1])
  show ?thesis
    using d h2 a b c by simp
qed

section \<open>Follow-state correction\<close>

lemma obj_value_forced:
  "obj_value (obj_insert key v (obj_remove key obj)) k = (if k = key then v else obj_value obj k)"
  by (simp add: obj_value_def obj_insert_def obj_remove_def update_conv' delete_conv')

text \<open>
  C8. Whatever a reply to a follow call holds, a result that is emitted for it has
  \<open>following\<close> true, and a result emitted for an unfollow call has \<open>following\<close> false.
  When the reply succeeded and decodes to a JSON object, the result is that object
  with \<open>following\<close> replaced and every other field as it was.
\<close>

theorem follow_state_forced:
  "(\<forall>m. Emit (followUserSuccessful m) \<in> set (replyCompleted api FollowUserSlots reply) \<longrightarrow>
        obj_value m ''following'' = JBool True)
   \<and> (\<forall>m. Emit (unfollowUserSuccessful m) \<in> set (replyCompleted api UnfollowUserSlots reply) \<longrightarrow>
        obj_value m ''following'' = JBool False)
   \<and> (\<forall>obj. error reply = 0 \<and> document reply = Some (JObject obj) \<longrightarrow>
        (let followed = obj_insert ''following'' (JBool True) (obj_remove ''following'' obj);
             unfollowed = obj_insert ''following'' (JBool False) (obj_remove ''following'' obj)
         in replyCompleted api FollowUserSlots reply = [Emit (followUserSuccessful followed)]
            \<and> replyCompleted api UnfollowUserSlots reply = [Emit (unfollowUserSuccessful unfollowed)]
            \<and> obj_value followed ''following'' = JBool True
            \<and> obj_value unfollowed ''following'' = JBool False
            \<and> (\<forall>k. k \<noteq> ''following'' \<longrightarrow>
                  obj_value followed k = obj_value obj k \<and> obj_value unfollowed k = obj_value obj k)))"
proof (intro conjI allI impI)
  fix m
  assume "Emit (followUserSuccessful m) \<in> set (replyCompleted api FollowUserSlots reply)"
  then show "obj_value m ''following'' = JBool True"
    by (auto simp: replyCompleted_def errorSlot_def finishedSlot_def handleFollowUserError_def
        handleFollowUserFinished_def Let_def obj_value_forced
        split: if_splits option.splits jvalue.splits)
next
  fix m
  assume "Emit (unfollowUserSuccessful m) \<in> set (replyCompleted api UnfollowUserSlots reply)"
  then show "obj_value m ''following'' = JBool False"
    by (auto simp: replyCompleted_def errorSlot_def finishedSlot_def handleUnfollowUserError_def
        handleUnfollowUserFinished_def Let_def obj_value_forced
        split: if_splits option.splits jvalue.splits)
next
  fix obj
  assume "error reply = 0 \<and> document reply = Some (JObject obj)"
  then show "let followed = obj_insert ''following'' (JBool True) (obj_remove ''following'' obj);
             unfollowed = obj_insert ''following'' (JBool False) (obj_remove ''following'' obj)
         in replyCompleted api FollowUserSlots reply = [Emit (followUserSuccessful followed)]
            \<and> replyCompleted api UnfollowUserSlots reply = [Emit (unfollowUserSuccessful unfollowed)]
            \<and> obj_value followed ''following'' = JBool True
            \<and> obj_value unfollowed ''following'' = JBool False
            \<and> (\<forall>k. k \<noteq> ''following'' \<longrightarrow>
                  obj_value followed k = obj_value obj k \<and> obj_value unfollowed k = obj_value obj k)"
    by (simp add: replyCompleted_def finishedSlot_def handleFollowUserFinished_def
        handleUnfollowUserFinished_def Let_def obj_value_forced)
qed

text \<open>
  The remote side answers the follow with \<open>following\<close> false and the unfollow with
  \<open>following\<close> true; both are overridden.
\<close>

theorem follow_state_forced_witness:
  "error followReply = 0
   \<and> document followReply = Some (JObject [(''screen_name'', JString ''bob''), (''following'', JBool False)])
   \<and> replyCompleted plainApi FollowUserSlots followReply =
        [Emit (followUserSuccessful [(''screen_name'', JString ''bob''), (''following'', JBool True)])]
   \<and> error unfollowReply = 0
   \<and> document unfollowReply = Some (JObject [(''following'', JBool True), (''screen_name'', JString ''bob'')])
   \<and> replyCompleted plainApi UnfollowUserSlots unfollowReply =
        [Emit (unfollowUserSuccessful [(''screen_name'', JString ''bob''), (''following'', JBool False)])]
   \<and> obj_value [(''screen_name'', JString ''bob''), (''following'', JBool True)] ''following''
        = JBool True
   \<and> obj_value [(''screen_name'', JString ''bob''), (''following'', JBool False)] ''following''
        = JBool False"
proof -
  have h1: "error followReply = 0 \<and> document followReply =
      Some (JObject [(''screen_name'', JString ''bob''), (''following'', JBool False)])"
    by (simp add: followReply_def)
  have h2: "error unfollowReply = 0 \<and> document unfollowReply =
      Some (JObject [(''following'', JBool True), (''screen_name'', JString ''bob'')])"
    by (simp add: unfollowReply_def)
  note t1 = follow_state_forced [of plainApi followReply, THEN conjunct2, THEN conjunct2,
      rule_format, OF h1, unfolded Let_def, THEN conjunct1]
  note t2 = follow_state_forced [of plainApi unfollowReply, THEN conjunct2, THEN conjunct2,
      rule_format, OF h2, unfolded Let_def, THEN conjunct2, THEN conjunct1]
  have r1: "replyCompleted plainApi FollowUserSlots followReply =
        [Emit (followUserSuccessful [(''screen_name'', JString ''bob''), (''following'', JBool True)])]"
    using t1 by (simp add: obj_insert_def obj_remove_def)
  have r2: "replyCompleted plainApi UnfollowUserSlots unfollowReply =
        [Emit (unfollowUserSuccessful [(''screen_name'', JString ''bob''), (''following'', JBool False)])]"
    using t2 by (simp add: obj_insert_def obj_remove_def)
  have m1: "Emit (followUserSuccessful [(''screen_name'', JString ''bob''), (''following'', JBool True)])
      \<in> set (replyCompleted plainApi FollowUserSlots followReply)"
    by (simp add: r1)
  have m2: "Emit (unfollowUserSuccessful [(''screen_name'', JString ''bob''), (''following'', JBool False)])
      \<in> set (replyCompleted plainApi UnfollowUserSlots unfollowReply)"
    by (simp add: r2)
  note v1 = follow_state_forced [of plainApi followReply, THEN conjunct1, rule_format, OF m1]
  note v2 = follow_state_forced [of plainApi unfollowReply, THEN conjunct2, THEN conjunct1,
      rule_format, OF m2]
  show ?thesis
    by (intro conjI r1 r2 v1 v2) (simp_all add: h1 h2)
qed

section \<open>The error channel of the retweet timeline\<close>

text \<open>
  C7 asks that a failed retweet-timeline exchange reports the message of the parsed
  error on the retweet timeline's own error signal. \<open>handleRetweetTimelineError\<close> emits
  \<open>mentionsTimelineError\<close> instead, for every reply, and never \<open>retweetTimelineError\<close>:
  a blocked retweet-timeline call ends with the signal of the mentions timeline. The
  generic failure slot, given the retweet timeline's error signal, does emit it.
\<close>

theorem retweetTimeline_failure_signal:
  "handleRetweetTimelineError reply =
     [Emit (mentionsTimelineError
        (report_toString (parseErrorResponse (errorString reply) (document reply)) ''message''))]
   \<and> (\<forall>message. Emit (retweetTimelineError message) \<notin> set (handleRetweetTimelineError reply))
   \<and> signals (run plainApi hostileNetwork (retweetTimeline plainApi))
        = [mentionsTimelineError ''You have been blocked'']
   \<and> genericHandlerFailure retweetTimelineError reply =
        [Emit (retweetTimelineError
           (report_toString (parseErrorResponse (errorString reply) (document reply)) ''message''))]"
proof (intro conjI)
  show "genericHandlerFailure retweetTimelineError reply =
        [Emit (retweetTimelineError
           (report_toString (parseErrorResponse (errorString reply) (document reply)) ''message''))]"
    by (simp add: genericHandlerFailure_def Let_def)
  show "handleRetweetTimelineError reply =
     [Emit (mentionsTimelineError
        (report_toString (parseErrorResponse (errorString reply) (document reply)) ''message''))]"
    by (simp add: handleRetweetTimelineError_def Let_def)
  then show "\<forall>message. Emit (retweetTimelineError message) \<notin> set (handleRetweetTimelineError reply)"
    by simp
  have "report_toString (parseErrorResponse (errorString blockedReply) (document blockedReply)) ''message''
      = ''You have been blocked''"
    using blockedReply_report by (simp add: report_toString_def)
  then show "signals (run plainApi hostileNetwork (retweetTimeline plainApi))
        = [mentionsTimelineError ''You have been blocked'']"
    by (simp add: retweetTimeline_def Let_def replyCompleted_def errorSlot_def finishedSlot_def
        handleRetweetTimelineError_def handleRetweetTimelineFinished_def answer_def
        hostileNetwork_def blockedReply_def signals_def)
qed

section \<open>Link previews: the charset and the result\<close>

lemma update_not_Nil: "AList.update k v al \<noteq> []"
  by (cases al) auto

lemma map_of_openGraphTags:
  "map_of (openGraphTags doc) k =
     (if k = ''url'' \<or> k = ''image'' \<or> k = ''description'' \<or> k = ''title''
      then ogIndexIn k doc else None)"
  by (cases "ogIndexIn ''url'' doc"; cases "ogIndexIn ''image'' doc";
      cases "ogIndexIn ''description'' doc"; cases "ogIndexIn ''title'' doc")
     (auto simp: openGraphTags_def Let_def obj_insert_def update_conv')

lemma openGraphTags_Nil_iff:
  "openGraphTags doc = [] \<longleftrightarrow>
     ogIndexIn ''url'' doc = None \<and> ogIndexIn ''image'' doc = None
     \<and> ogIndexIn ''description'' doc = None \<and> ogIndexIn ''title'' doc = None"
  by (cases "ogIndexIn ''url'' doc"; cases "ogIndexIn ''image'' doc";
      cases "ogIndexIn ''description'' doc"; cases "ogIndexIn ''title'' doc")
     (simp_all add: openGraphTags_def Let_def obj_insert_def update_not_Nil)

lemma obj_value_map_JString:
  "obj_value (map (\<lambda>(k, v). (k, JString v)) al) key =
     (case map_of al key of None \<Rightarrow> JUndefined | Some v \<Rightarrow> JString v)"
  by (induction al) (auto simp: obj_value_def)

lemma openGraphResult_error:
  assumes "openGraphTags doc = []"
  shows "openGraphResult requestAddress doc =
     [Emit (getOpenGraphError (requestAddress @ '' does not contain Open Graph data''))]"
  using assms by (simp add: openGraphResult_def)

lemma openGraphResult_success:
  assumes "openGraphTags doc \<noteq> []"
  shows "\<exists>openGraphData.
     openGraphResult requestAddress doc = [Emit (getOpenGraphSuccessful openGraphData)]
     \<and> obj_value openGraphData ''url'' = JString requestAddress
     \<and> obj_value openGraphData ''title'' =
         JString (case ogIndexIn ''title'' doc of None \<Rightarrow> requestAddress | Some t \<Rightarrow> t)
     \<and> obj_value openGraphData ''image'' =
         (case ogIndexIn ''image'' doc of None \<Rightarrow> JUndefined | Some v \<Rightarrow> JString v)
     \<and> obj_value openGraphData ''description'' =
         (case ogIndexIn ''description'' doc of None \<Rightarrow> JUndefined | Some v \<Rightarrow> JString v)"
proof -
  let ?d1 = "obj_insert ''url'' requestAddress (openGraphTags doc)"
  let ?d2 = "if map_of ?d1 ''title'' = None
             then obj_insert ''title'' (report_toString ?d1 ''url'') ?d1 else ?d1"
  have m1: "map_of ?d1 = (map_of (openGraphTags doc))(''url'' \<mapsto> requestAddress)"
    by (simp add: obj_insert_def update_conv')
  have u: "report_toString ?d1 ''url'' = requestAddress"
    by (simp add: report_toString_def m1)
  have m2: "map_of ?d2 = (\<lambda>k. if k = ''url'' then Some requestAddress
        else if k = ''title''
          then Some (case ogIndexIn ''title'' doc of None \<Rightarrow> requestAddress | Some t \<Rightarrow> t)
        else if k = ''image'' \<or> k = ''description'' then ogIndexIn k doc else None)"
    by (auto simp: fun_eq_iff m1 u [unfolded obj_insert_def] obj_insert_def update_conv'
        map_of_openGraphTags split: option.splits)
  have r: "openGraphResult requestAddress doc =
      [Emit (getOpenGraphSuccessful (map (\<lambda>(k, v). (k, JString v)) ?d2))]"
    using assms by (simp add: openGraphResult_def Let_def)
  show ?thesis
    unfolding r by (intro exI conjI, rule refl) (simp_all only: obj_value_map_JString m2, simp_all)
qed

lemma handleGetOpenGraphFinished_html:
  assumes "error reply = 0" and "contentTypeHeader reply = Some contentType"
    and "containsCaseInsensitive contentType ''text/html''"
  shows "handleGetOpenGraphFinished codecForName reply =
     (case codecForName (openGraphCharset contentType) of
        None \<Rightarrow> Inl NullCodec
      | Some toUnicode \<Rightarrow>
          Inr (openGraphResult (url_toString (request reply)) (toUnicode (readAll reply))))"
  using assms by (simp add: handleGetOpenGraphFinished_def Let_def)

text \<open>
  Where Qt has the codec, the slot does what is asked of the result: no tag gives the
  error message with the request URL; a tag gives a result whose \<open>url\<close> is the request
  URL and whose \<open>title\<close> is the found title, or the request URL when none was found.
\<close>

lemma handleGetOpenGraphFinished_decoded:
  assumes "error reply = 0" and "contentTypeHeader reply = Some contentType"
    and "containsCaseInsensitive contentType ''text/html''"
    and "codecForName (openGraphCharset contentType) = Some toUnicode"
  shows "let requestAddress = url_toString (request reply);
             resultDocument = toUnicode (readAll reply);
             found = (\<lambda>name. ogIndexIn name resultDocument)
         in (found ''url'' = None \<and> found ''image'' = None \<and> found ''description'' = None
               \<and> found ''title'' = None \<longrightarrow>
             handleGetOpenGraphFinished codecForName reply =
               Inr [Emit (getOpenGraphError (requestAddress @ '' does not contain Open Graph data''))])
          \<and> (found ''url'' \<noteq> None \<or> found ''image'' \<noteq> None \<or> found ''description'' \<noteq> None
               \<or> found ''title'' \<noteq> None \<longrightarrow>
             (\<exists>openGraphData.
                handleGetOpenGraphFinished codecForName reply =
                  Inr [Emit (getOpenGraphSuccessful openGraphData)]
                \<and> obj_value openGraphData ''url'' = JString requestAddress
                \<and> (found ''title'' = None \<longrightarrow> obj_value openGraphData ''title'' = JString requestAddress)
                \<and> (\<forall>title. found ''title'' = Some title \<longrightarrow>
                      obj_value openGraphData ''title'' = JString title)))"
proof -
  let ?address = "url_toString (request reply)"
  let ?doc = "toUnicode (readAll reply)"
  have h: "handleGetOpenGraphFinished codecForName reply = Inr (openGraphResult ?address ?doc)"
    using handleGetOpenGraphFinished_html [OF assms(1-3), of codecForName] assms(4) by simp
  have none: "openGraphResult ?address ?doc =
      [Emit (getOpenGraphError (?address @ '' does not contain Open Graph data''))]"
    if "ogIndexIn ''url'' ?doc = None \<and> ogIndexIn ''image'' ?doc = None
        \<and> ogIndexIn ''description'' ?doc = None \<and> ogIndexIn ''title'' ?doc = None"
    using that by (intro openGraphResult_error) (simp add: openGraphTags_Nil_iff)
  have some: "\<exists>openGraphData.
      openGraphResult ?address ?doc = [Emit (getOpenGraphSuccessful openGraphData)]
      \<and> obj_value openGraphData ''url'' = JString ?address
      \<and> (ogIndexIn ''title'' ?doc = None \<longrightarrow> obj_value openGraphData ''title'' = JString ?address)
      \<and> (\<forall>title. ogIndexIn ''title'' ?doc = Some title \<longrightarrow>
            obj_value openGraphData ''title'' = JString title)"
    if "ogIndexIn ''url'' ?doc \<noteq> None \<or> ogIndexIn ''image'' ?doc \<noteq> None
        \<or> ogIndexIn ''description'' ?doc \<noteq> None \<or> ogIndexIn ''title'' ?doc \<noteq> None"
  proof -
    from that have "openGraphTags ?doc \<noteq> []"
      by (simp add: openGraphTags_Nil_iff)
    from openGraphResult_success [OF this, of ?address]
    obtain openGraphData where
      "openGraphResult ?address ?doc = [Emit (getOpenGraphSuccessful openGraphData)]"
      "obj_value openGraphData ''url'' = JString ?address"
      "obj_value openGraphData ''title'' =
         JString (case ogIndexIn ''title'' ?doc of None \<Rightarrow> ?address | Some t \<Rightarrow> t)"
      by blast
    then show ?thesis by auto
  qed
  show ?thesis
    unfolding Let_def h using none some by simp
qed

text \<open>
  C5 asks that the bytes are decoded with the last declared charset token when the
  content type declares tokens and none of them is UTF-8, and as UTF-8 otherwise. The
  slot misses this on content types of HTML replies that finished without error:
  \<^item> the capture of the pattern runs over a semicolon, so in
    \<open>charset=utf-8; charset=iso-8859-15\<close> the first token is \<open>UTF-8;\<close>, no token equals
    \<open>UTF-8\<close> and the page is decoded as ISO-8859-15, where declared UTF-8 gives another
    description;
  \<^item> the pattern is case-sensitive, so \<open>Charset=ISO-8859-15\<close> declares nothing for it and
    the page is decoded as UTF-8;
  \<^item> for a token that names no codec, \<open>x-nope\<close> or the empty token of \<open>charset=\<close>, the
    slot uses the null pointer it gets for a codec and decodes nothing.
\<close>

theorem openGraph_charset_failing_inputs:
  "map toUpper (charsetGlobalMatch ''text/html; charset=utf-8; charset=iso-8859-15'')
      = [''UTF-8;'', ''ISO-8859-15'']
   \<and> openGraphCharset ''text/html; charset=utf-8; charset=iso-8859-15'' = ''ISO-8859-15''
   \<and> handleGetOpenGraphFinished exampleCodecs
        (pageReply ''text/html; charset=utf-8; charset=iso-8859-15'' pageBytes)
      = Inr [Emit (getOpenGraphSuccessful
          [(''url'', JString ''https://example.org/article''),
           (''description'', JString (''caf'' @ [CHR 0xC3, CHR 0xA9])),
           (''title'', JString ''https://example.org/article'')])]
   \<and> handleGetOpenGraphFinished exampleCodecs (pageReply ''text/html; charset=utf-8'' pageBytes)
      = Inr [Emit (getOpenGraphSuccessful
          [(''url'', JString ''https://example.org/article''),
           (''description'', JString (''caf'' @ [CHR 0xE9])),
           (''title'', JString ''https://example.org/article'')])]
   \<and> charsetGlobalMatch ''text/html; Charset=ISO-8859-15'' = []
   \<and> openGraphCharset ''text/html; Charset=ISO-8859-15'' = ''UTF-8''
   \<and> handleGetOpenGraphFinished exampleCodecs
        (pageReply ''text/html; Charset=ISO-8859-15'' pageBytes)
      = Inr [Emit (getOpenGraphSuccessful
          [(''url'', JString ''https://example.org/article''),
           (''description'', JString (''caf'' @ [CHR 0xE9])),
           (''title'', JString ''https://example.org/article'')])]
   \<and> map toUpper (charsetGlobalMatch ''text/html; charset=x-nope'') = [''X-NOPE'']
   \<and> handleGetOpenGraphFinished exampleCodecs (pageReply ''text/html; charset=x-nope'' pageBytes)
      = Inl NullCodec
   \<and> map toUpper (charsetGlobalMatch ''text/html; charset='') = [[]]
   \<and> handleGetOpenGraphFinished exampleCodecs (pageReply ''text/html; charset='' pageBytes)
      = Inl NullCodec"
proof (intro conjI)
  show "map toUpper (charsetGlobalMatch ''text/html; charset=utf-8; charset=iso-8859-15'')
      = [''UTF-8;'', ''ISO-8859-15'']"
    by code_simp
  show "openGraphCharset ''text/html; charset=utf-8; charset=iso-8859-15'' = ''ISO-8859-15''"
    by code_simp
  show "handleGetOpenGraphFinished exampleCodecs
        (pageReply ''text/html; charset=utf-8; charset=iso-8859-15'' pageBytes)
      = Inr [Emit (getOpenGraphSuccessful
          [(''url'', JString ''https://example.org/article''),
           (''description'', JString (''caf'' @ [CHR 0xC3, CHR 0xA9])),
           (''title'', JString ''https://example.org/article'')])]"
    by code_simp
  show "handleGetOpenGraphFinished exampleCodecs (pageReply ''text/html; charset=utf-8'' pageBytes)
      = Inr [Emit (getOpenGraphSuccessful
          [(''url'', JString ''https://example.org/article''),
           (''description'', JString (''caf'' @ [CHR 0xE9])),
           (''title'', JString ''https://example.org/article'')])]"
    by code_simp
  show "charsetGlobalMatch ''text/html; Charset=ISO-8859-15'' = []"
    by code_simp
  show "openGraphCharset ''text/html; Charset=ISO-8859-15'' = ''UTF-8''"
    by code_simp
  show "handleGetOpenGraphFinished exampleCodecs
        (pageReply ''text/html; Charset=ISO-8859-15'' pageBytes)
      = Inr [Emit (getOpenGraphSuccessful
          [(''url'', JString ''https://example.org/article''),
           (''description'', JString (''caf'' @ [CHR 0xE9])),
           (''title'', JString ''https://example.org/article'')])]"
    by code_simp
  show "map toUpper (charsetGlobalMatch ''text/html; charset=x-nope'') = [''X-NOPE'']"
    by code_simp
  show "handleGetOpenGraphFinished exampleCodecs (pageReply ''text/html; charset=x-nope'' pageBytes)
      = Inl NullCodec"
    by code_simp
  show "map toUpper (charsetGlobalMatch ''text/html; charset='') = [[]]"
    by code_simp
  show "handleGetOpenGraphFinished exampleCodecs (pageReply ''text/html; charset='' pageBytes)
      = Inl NullCodec"
    by code_simp
qed

text \<open>
  C6 asks for the failure message whenever no tag matches, and for the result with the
  request URL whenever one does. For an HTML page served as \<open>charset=x-nope\<close> the slot
  emits neither: it uses the null pointer it gets for the codec before any tag is
  searched, on the page without tags and on the page with tags alike. Served as
  \<open>charset=utf-8\<close> the same two pages give the failure message and the result.
\<close>

theorem openGraph_result_failing_input:
  "error (pageReply ''text/html; charset=x-nope'' plainPageBytes) = 0
   \<and> containsCaseInsensitive ''text/html; charset=x-nope'' ''text/html''
   \<and> ogIndexIn ''url'' plainPageBytes = None \<and> ogIndexIn ''image'' plainPageBytes = None
   \<and> ogIndexIn ''description'' plainPageBytes = None \<and> ogIndexIn ''title'' plainPageBytes = None
   \<and> handleGetOpenGraphFinished exampleCodecs (pageReply ''text/html; charset=x-nope'' plainPageBytes)
      = Inl NullCodec
   \<and> handleGetOpenGraphFinished exampleCodecs (pageReply ''text/html; charset=utf-8'' plainPageBytes)
      = Inr [Emit (getOpenGraphError
          ''https://example.org/article does not contain Open Graph data'')]
   \<and> ogIndexIn ''url'' pageBytes = Some ''https://example.org/canonical''
   \<and> ogIndexIn ''title'' pageBytes = None
   \<and> handleGetOpenGraphFinished exampleCodecs (pageReply ''text/html; charset=x-nope'' pageBytes)
      = Inl NullCodec
   \<and> handleGetOpenGraphFinished exampleCodecs (pageReply ''text/html; charset=utf-8'' pageBytes)
      = Inr [Emit (getOpenGraphSuccessful
          [(''url'', JString ''https://example.org/article''),
           (''description'', JString (''caf'' @ [CHR 0xE9])),
           (''title'', JString ''https://example.org/article'')])]"
proof (intro conjI)
  show "error (pageReply ''text/html; charset=x-nope'' plainPageBytes) = 0"
    by (simp add: pageReply_def)
  show "containsCaseInsensitive ''text/html; charset=x-nope'' ''text/html''"
    by code_simp
  show "ogIndexIn ''url'' plainPageBytes = None" "ogIndexIn ''image'' plainPageBytes = None"
    "ogIndexIn ''description'' plainPageBytes = None" "ogIndexIn ''title'' plainPageBytes = None"
    by code_simp+
  show "handleGetOpenGraphFinished exampleCodecs (pageReply ''text/html; charset=x-nope'' plainPageBytes)
      = Inl NullCodec"
    by code_simp
  show "handleGetOpenGraphFinished exampleCodecs (pageReply ''text/html; charset=utf-8'' plainPageBytes)
      = Inr [Emit (getOpenGraphError
          ''https://example.org/article does not contain Open Graph data'')]"
    by code_simp
  show "ogIndexIn ''url'' pageBytes = Some ''https://example.org/canonical''"
    "ogIndexIn ''title'' pageBytes = None"
    by code_simp+
  show "handleGetOpenGraphFinished exampleCodecs (pageReply ''text/html; charset=x-nope'' pageBytes)
      = Inl NullCodec"
    by code_simp
  show "handleGetOpenGraphFinished exampleCodecs (pageReply ''text/html; charset=utf-8'' pageBytes)
      = Inr [Emit (getOpenGraphSuccessful
          [(''url'', JString ''https://example.org/article''),
           (''description'', JString (''caf'' @ [CHR 0xE9])),
           (''title'', JString ''https://example.org/article'')])]"
    by code_simp
qed

end
